theory Spec2Isabelle
  imports Complex_Main
begin

section \<open>Results and errors\<close>

text \<open>
  A Python exception is a value on the left of a sum. \<open>IndexError\<close> is what indexing a
  tensor dimension out of range raises, \<open>TypeError\<close> what a tensor operation on \<open>None\<close>
  raises, \<open>AttributeError\<close> what reading an attribute that was never assigned raises,
  \<open>RuntimeError\<close> what \<open>torch.cat\<close> raises on tensors whose sizes do not match.
  \<open>ConfigurationError\<close> is the error the specification names for the controller mode
  selector.
\<close>

datatype error = IndexError | TypeError | AttributeError | RuntimeError | ConfigurationError

type_synonym 'a result = "error + 'a"

definition rbind :: "'a result \<Rightarrow> ('a \<Rightarrow> 'b result) \<Rightarrow> 'b result" where
  "rbind r f = (case r of Inl e \<Rightarrow> Inl e | Inr x \<Rightarrow> f x)"

primrec collect :: "'a result list \<Rightarrow> 'a list result" where
  "collect [] = Inr []"
| "collect (r # rs) = rbind r (\<lambda>x. rbind (collect rs) (\<lambda>xs. Inr (x # xs)))"

section \<open>Tensors as nested lists\<close>

text \<open>
  A tensor of shape \<open>(n, a, b)\<close> is a list of \<open>n\<close> lists of \<open>a\<close> lists of \<open>b\<close> entries;
  the outermost list is the environment (batch) dimension. Arrays are rectangular by
  construction; the predicates \<open>rect2\<close>, \<open>rect3\<close>, \<open>rect4\<close> state the shape.
\<close>

type_synonym 'a tensor2 = "'a list list"
type_synonym 'a tensor3 = "'a list list list"
type_synonym 'a tensor4 = "'a list list list list"

definition rect2 :: "nat \<Rightarrow> nat \<Rightarrow> 'a tensor2 \<Rightarrow> bool" where
  "rect2 r c m \<longleftrightarrow> length m = r \<and> list_all (\<lambda>row. length row = c) m"

definition rect3 :: "nat \<Rightarrow> nat \<Rightarrow> nat \<Rightarrow> 'a tensor3 \<Rightarrow> bool" where
  "rect3 n r c t \<longleftrightarrow> length t = n \<and> list_all (rect2 r c) t"

definition rect4 :: "nat \<Rightarrow> nat \<Rightarrow> nat \<Rightarrow> nat \<Rightarrow> 'a tensor4 \<Rightarrow> bool" where
  "rect4 n l r c t \<longleftrightarrow> length t = n \<and> list_all (rect3 l r c) t"

text \<open>
  Python indexing \<open>xs[i]\<close> with an integer: a negative index counts from the end, an index
  outside \<open>-len \<le> i < len\<close> raises.
\<close>

definition py_index :: "'a list \<Rightarrow> int \<Rightarrow> 'a result" where
  "py_index xs i =
     (if 0 \<le> i \<and> i < int (length xs) then Inr (xs ! nat i)
      else if - int (length xs) \<le> i \<and> i < 0 then Inr (xs ! nat (int (length xs) + i))
      else Inl IndexError)"

text \<open>The slice \<open>xs[a:b]\<close> for constants \<open>0 \<le> a\<close>, \<open>0 \<le> b\<close>; a slice never raises.\<close>

definition py_slice :: "nat \<Rightarrow> nat \<Rightarrow> 'a list \<Rightarrow> 'a list" where
  "py_slice a b xs = take (b - a) (drop a xs)"

text \<open>\<open>t[:, k]\<close>: the entry \<open>k\<close> of dimension 1, for every environment.\<close>

definition index_dim1 :: "'a list list \<Rightarrow> int \<Rightarrow> 'a list result" where
  "index_dim1 t k = collect (map (\<lambda>env. py_index env k) t)"

text \<open>
  \<open>np.concatenate((a, b), axis=1)\<close> appends, per environment, the entries of dimension 1;
  \<open>np.concatenate((a, b), axis=3)\<close> appends the innermost rows of a rank-4 array. The
  result is a freshly allocated array. (numpy raises when the other dimensions of the two
  arguments differ; the two arms' tensors have one shape, see the \<open>rect\<close> hypotheses.)
\<close>

definition concatenate_axis1 :: "'a list list \<Rightarrow> 'a list list \<Rightarrow> 'a list list" where
  "concatenate_axis1 a b = map2 (@) a b"

definition concatenate_axis3 :: "'a tensor4 \<Rightarrow> 'a tensor4 \<Rightarrow> 'a tensor4" where
  "concatenate_axis3 a b = map2 (map2 (map2 (@))) a b"

text \<open>\<open>jac[:, k, 0:6, c0:c1]\<close> and \<open>mm[:, r0:r1, 0:7]\<close>.\<close>

definition jacobian_view :: "'a tensor4 \<Rightarrow> int \<Rightarrow> nat \<Rightarrow> nat \<Rightarrow> 'a tensor3 result" where
  "jacobian_view jac k c0 c1 =
     rbind (index_dim1 jac k) (\<lambda>links. Inr (map (\<lambda>m. map (py_slice c0 c1) (py_slice 0 6 m)) links))"

definition mass_matrix_view :: "'a tensor3 \<Rightarrow> nat \<Rightarrow> nat \<Rightarrow> 'a tensor3" where
  "mass_matrix_view mm r0 r1 = map (\<lambda>m. map (py_slice 0 7) (py_slice r0 r1 m)) mm"

section \<open>Tensor entries\<close>

text \<open>
  A tensor entry is a real number or \<open>NaN\<close>. Arithmetic on numbers is exact (rounding and
  overflow are not modelled); \<open>NaN\<close> propagates through every arithmetic operation and
  compares false, as in IEEE 754. The quotient \<open>0 / 0\<close> is \<open>NaN\<close>. (IEEE gives an infinity
  for a nonzero number divided by zero; the model has no infinities and gives \<open>NaN\<close>
  there as well. The code modelled below divides a vector by its own norm, and a norm of
  exact numbers is zero only when every numerator is zero.)
\<close>

datatype fl = Fin real | NaN

fun fadd :: "fl \<Rightarrow> fl \<Rightarrow> fl" where
  "fadd (Fin a) (Fin b) = Fin (a + b)"
| "fadd _ _ = NaN"

fun fsub :: "fl \<Rightarrow> fl \<Rightarrow> fl" where
  "fsub (Fin a) (Fin b) = Fin (a - b)"
| "fsub _ _ = NaN"

fun fmul :: "fl \<Rightarrow> fl \<Rightarrow> fl" where
  "fmul (Fin a) (Fin b) = Fin (a * b)"
| "fmul _ _ = NaN"

fun fdiv :: "fl \<Rightarrow> fl \<Rightarrow> fl" where
  "fdiv (Fin a) (Fin b) = (if b = 0 then NaN else Fin (a / b))"
| "fdiv _ _ = NaN"

fun fsqrt :: "fl \<Rightarrow> fl" where
  "fsqrt (Fin a) = (if a < 0 then NaN else Fin (sqrt a))"
| "fsqrt NaN = NaN"

fun fsin :: "fl \<Rightarrow> fl" where
  "fsin (Fin a) = Fin (sin a)"
| "fsin NaN = NaN"

fun fcos :: "fl \<Rightarrow> fl" where
  "fcos (Fin a) = Fin (cos a)"
| "fcos NaN = NaN"

text \<open>\<open>x.clamp(min=eps)\<close>: \<open>NaN\<close> stays \<open>NaN\<close>.\<close>

fun fclamp_min :: "fl \<Rightarrow> real \<Rightarrow> fl" where
  "fclamp_min (Fin a) eps = Fin (max a eps)"
| "fclamp_min NaN eps = NaN"

fun fgt :: "fl \<Rightarrow> fl \<Rightarrow> bool" where
  "fgt (Fin a) (Fin b) \<longleftrightarrow> a > b"
| "fgt _ _ \<longleftrightarrow> False"

type_synonym vec3 = "fl \<times> fl \<times> fl"
type_synonym quat = "fl \<times> fl \<times> fl \<times> fl"

fun vadd :: "vec3 \<Rightarrow> vec3 \<Rightarrow> vec3" where
  "vadd (a1, a2, a3) (b1, b2, b3) = (fadd a1 b1, fadd a2 b2, fadd a3 b3)"

fun vsub :: "vec3 \<Rightarrow> vec3 \<Rightarrow> vec3" where
  "vsub (a1, a2, a3) (b1, b2, b3) = (fsub a1 b1, fsub a2 b2, fsub a3 b3)"

fun vscale :: "vec3 \<Rightarrow> fl \<Rightarrow> vec3" where
  "vscale (a1, a2, a3) k = (fmul a1 k, fmul a2 k, fmul a3 k)"

text \<open>\<open>torch.cross\<close> on one row.\<close>

fun cross :: "vec3 \<Rightarrow> vec3 \<Rightarrow> vec3" where
  "cross (a1, a2, a3) (b1, b2, b3) =
     (fsub (fmul a2 b3) (fmul a3 b2),
      fsub (fmul a3 b1) (fmul a1 b3),
      fsub (fmul a1 b2) (fmul a2 b1))"


text \<open>Elementwise sum and scaling of rank-3 tensors (\<open>a + b\<close>, \<open>a * k\<close>).\<close>

definition tadd :: "fl tensor3 \<Rightarrow> fl tensor3 \<Rightarrow> fl tensor3" where
  "tadd a b = map2 (map2 (map2 fadd)) a b"

definition tscale :: "fl tensor3 \<Rightarrow> fl \<Rightarrow> fl tensor3" where
  "tscale a k = map (map (map (\<lambda>x. fmul x k))) a"

section \<open>The simulator's tensors\<close>

text \<open>
  A row of the rigid-body state tensor has 13 entries: position \<open>[0:3]\<close>, orientation
  quaternion \<open>[3:7]\<close> (x, y, z, w), linear velocity \<open>[7:10]\<close>, angular velocity \<open>[10:13]\<close>.
  The tensor is modelled in the shape \<open>(num_envs, num_bodies, 13)\<close> that
  \<open>body_state.view(num_envs, num_bodies, 13)\<close> gives it.
\<close>

record body_row =
  row_pos :: vec3
  row_quat :: quat
  row_linvel :: vec3
  row_angvel :: vec3

text \<open>
  The buffers that the simulator owns and that \<open>gymtorch.wrap_tensor\<close> shares with the
  program: the simulator's \<open>refresh_*\<close> calls overwrite them in place. Only the tensors
  read by the functions below are kept.
\<close>

record gym_tensors =
  body_state :: "body_row list list"
  gym_jacobian :: "fl tensor4"
  gym_mass_matrix :: "fl tensor3"
  gym_jacobian_2 :: "fl tensor4"
  gym_mass_matrix_2 :: "fl tensor3"

text \<open>
  Attributes set by the environment subclass and the asset configuration (neither is part
  of the modelled files): the per-environment body ids and the finger length.
\<close>

record franka_env =
  hand_body_id_env :: int
  hand_body_id_env_2 :: int
  left_finger_body_id_env :: int
  left_finger_body_id_env_2 :: int
  right_finger_body_id_env :: int
  right_finger_body_id_env_2 :: int
  fingertip_centered_body_id_env :: int
  fingertip_centered_body_id_env_2 :: int
  franka_finger_length :: fl

text \<open>
  Views share memory with the tensor they slice, so a view is a function of the current
  contents of its base buffer. \<open>body_view f g k\<close> is \<open>self.body_<f>[:, k, ...]\<close>.
\<close>

definition body_view :: "(body_row \<Rightarrow> 'a) \<Rightarrow> gym_tensors \<Rightarrow> int \<Rightarrow> 'a list result" where
  "body_view f g k = index_dim1 (map (map f) (body_state g)) k"

definition hand_pos :: "gym_tensors \<Rightarrow> franka_env \<Rightarrow> vec3 list result" where
  "hand_pos g e = body_view row_pos g (hand_body_id_env e)"

definition hand_quat :: "gym_tensors \<Rightarrow> franka_env \<Rightarrow> quat list result" where
  "hand_quat g e = body_view row_quat g (hand_body_id_env e)"

definition hand_linvel :: "gym_tensors \<Rightarrow> franka_env \<Rightarrow> vec3 list result" where
  "hand_linvel g e = body_view row_linvel g (hand_body_id_env e)"

definition hand_angvel :: "gym_tensors \<Rightarrow> franka_env \<Rightarrow> vec3 list result" where
  "hand_angvel g e = body_view row_angvel g (hand_body_id_env e)"

definition hand_pos_2 :: "gym_tensors \<Rightarrow> franka_env \<Rightarrow> vec3 list result" where
  "hand_pos_2 g e = body_view row_pos g (hand_body_id_env_2 e)"

definition hand_quat_2 :: "gym_tensors \<Rightarrow> franka_env \<Rightarrow> quat list result" where
  "hand_quat_2 g e = body_view row_quat g (hand_body_id_env_2 e)"

definition hand_linvel_2 :: "gym_tensors \<Rightarrow> franka_env \<Rightarrow> vec3 list result" where
  "hand_linvel_2 g e = body_view row_linvel g (hand_body_id_env_2 e)"

definition hand_angvel_2 :: "gym_tensors \<Rightarrow> franka_env \<Rightarrow> vec3 list result" where
  "hand_angvel_2 g e = body_view row_angvel g (hand_body_id_env_2 e)"

definition left_finger_pos :: "gym_tensors \<Rightarrow> franka_env \<Rightarrow> vec3 list result" where
  "left_finger_pos g e = body_view row_pos g (left_finger_body_id_env e)"

definition left_finger_pos_2 :: "gym_tensors \<Rightarrow> franka_env \<Rightarrow> vec3 list result" where
  "left_finger_pos_2 g e = body_view row_pos g (left_finger_body_id_env_2 e)"

definition right_finger_pos :: "gym_tensors \<Rightarrow> franka_env \<Rightarrow> vec3 list result" where
  "right_finger_pos g e = body_view row_pos g (right_finger_body_id_env e)"

definition right_finger_pos_2 :: "gym_tensors \<Rightarrow> franka_env \<Rightarrow> vec3 list result" where
  "right_finger_pos_2 g e = body_view row_pos g (right_finger_body_id_env_2 e)"

definition fingertip_centered_pos :: "gym_tensors \<Rightarrow> franka_env \<Rightarrow> vec3 list result" where
  "fingertip_centered_pos g e = body_view row_pos g (fingertip_centered_body_id_env e)"

definition fingertip_centered_quat :: "gym_tensors \<Rightarrow> franka_env \<Rightarrow> quat list result" where
  "fingertip_centered_quat g e = body_view row_quat g (fingertip_centered_body_id_env e)"

definition fingertip_centered_linvel :: "gym_tensors \<Rightarrow> franka_env \<Rightarrow> vec3 list result" where
  "fingertip_centered_linvel g e = body_view row_linvel g (fingertip_centered_body_id_env e)"

definition fingertip_centered_angvel :: "gym_tensors \<Rightarrow> franka_env \<Rightarrow> vec3 list result" where
  "fingertip_centered_angvel g e = body_view row_angvel g (fingertip_centered_body_id_env e)"

definition fingertip_centered_pos_2 :: "gym_tensors \<Rightarrow> franka_env \<Rightarrow> vec3 list result" where
  "fingertip_centered_pos_2 g e = body_view row_pos g (fingertip_centered_body_id_env_2 e)"

definition fingertip_centered_quat_2 :: "gym_tensors \<Rightarrow> franka_env \<Rightarrow> quat list result" where
  "fingertip_centered_quat_2 g e = body_view row_quat g (fingertip_centered_body_id_env_2 e)"

definition fingertip_centered_linvel_2 :: "gym_tensors \<Rightarrow> franka_env \<Rightarrow> vec3 list result" where
  "fingertip_centered_linvel_2 g e = body_view row_linvel g (fingertip_centered_body_id_env_2 e)"

definition fingertip_centered_angvel_2 :: "gym_tensors \<Rightarrow> franka_env \<Rightarrow> vec3 list result" where
  "fingertip_centered_angvel_2 g e = body_view row_angvel g (fingertip_centered_body_id_env_2 e)"

text \<open>
  \<open>self.fingertip_midpoint_quat = self.fingertip_centered_quat  # always equal\<close> and the
  same for the angular velocity: the attribute is the view itself.
\<close>

definition fingertip_midpoint_quat :: "gym_tensors \<Rightarrow> franka_env \<Rightarrow> quat list result" where
  "fingertip_midpoint_quat g e = fingertip_centered_quat g e"

definition fingertip_midpoint_angvel :: "gym_tensors \<Rightarrow> franka_env \<Rightarrow> vec3 list result" where
  "fingertip_midpoint_angvel g e = fingertip_centered_angvel g e"

definition fingertip_midpoint_quat_2 :: "gym_tensors \<Rightarrow> franka_env \<Rightarrow> quat list result" where
  "fingertip_midpoint_quat_2 g e = fingertip_centered_quat_2 g e"

definition fingertip_midpoint_angvel_2 :: "gym_tensors \<Rightarrow> franka_env \<Rightarrow> vec3 list result" where
  "fingertip_midpoint_angvel_2 g e = fingertip_centered_angvel_2 g e"

text \<open>
  The Jacobian and mass-matrix views slice \<open>self.jacobian\<close> and \<open>self.mass_matrix\<close>, given
  here as the argument \<open>jac\<close> or \<open>mm\<close>: arm 1 at link \<open>body_id - 1\<close>, columns \<open>0:7\<close>; arm 2
  at link \<open>body_id_2 - 2\<close>, columns \<open>9:16\<close>.
\<close>

definition hand_jacobian :: "franka_env \<Rightarrow> fl tensor4 \<Rightarrow> fl tensor3 result" where
  "hand_jacobian e jac = jacobian_view jac (hand_body_id_env e - 1) 0 7"

definition hand_jacobian_2 :: "franka_env \<Rightarrow> fl tensor4 \<Rightarrow> fl tensor3 result" where
  "hand_jacobian_2 e jac = jacobian_view jac (hand_body_id_env_2 e - 2) 9 16"

definition left_finger_jacobian :: "franka_env \<Rightarrow> fl tensor4 \<Rightarrow> fl tensor3 result" where
  "left_finger_jacobian e jac = jacobian_view jac (left_finger_body_id_env e - 1) 0 7"

definition left_finger_jacobian_2 :: "franka_env \<Rightarrow> fl tensor4 \<Rightarrow> fl tensor3 result" where
  "left_finger_jacobian_2 e jac = jacobian_view jac (left_finger_body_id_env_2 e - 2) 9 16"

definition right_finger_jacobian :: "franka_env \<Rightarrow> fl tensor4 \<Rightarrow> fl tensor3 result" where
  "right_finger_jacobian e jac = jacobian_view jac (right_finger_body_id_env e - 1) 0 7"

definition right_finger_jacobian_2 :: "franka_env \<Rightarrow> fl tensor4 \<Rightarrow> fl tensor3 result" where
  "right_finger_jacobian_2 e jac = jacobian_view jac (right_finger_body_id_env_2 e - 2) 9 16"

definition fingertip_centered_jacobian :: "franka_env \<Rightarrow> fl tensor4 \<Rightarrow> fl tensor3 result" where
  "fingertip_centered_jacobian e jac = jacobian_view jac (fingertip_centered_body_id_env e - 1) 0 7"

definition fingertip_centered_jacobian_2 :: "franka_env \<Rightarrow> fl tensor4 \<Rightarrow> fl tensor3 result" where
  "fingertip_centered_jacobian_2 e jac =
     jacobian_view jac (fingertip_centered_body_id_env_2 e - 2) 9 16"

definition arm_mass_matrix :: "fl tensor3 \<Rightarrow> fl tensor3" where
  "arm_mass_matrix mm = mass_matrix_view mm 0 7"

definition arm_mass_matrix_2 :: "fl tensor3 \<Rightarrow> fl tensor3" where
  "arm_mass_matrix_2 mm = mass_matrix_view mm 9 16"


section \<open>The base class: acquiring and refreshing tensors\<close>

text \<open>
  Modelled from the spec: \<open>translate_along_local_z\<close> of the module
  \<open>factory_control_MARL2\<close>, which is not among the modelled files. The specification says
  that the fingertip midpoint is the finger midpoint "offset along the hand's local z-axis
  by a configured finger length": the offset vector \<open>(0, 0, offset)\<close> is rotated by the
  quaternion (the rotation \<open>quat_apply\<close>) and added to the position, row by row.
\<close>

fun quat_apply :: "quat \<Rightarrow> vec3 \<Rightarrow> vec3" where
  "quat_apply (qx, qy, qz, qw) b =
     (let xyz = (qx, qy, qz);
          t = vscale (cross xyz b) (Fin 2)
      in vadd (vadd b (vscale t qw)) (cross xyz t))"

definition translate_along_local_z :: "vec3 list \<Rightarrow> quat list \<Rightarrow> fl \<Rightarrow> vec3 list" where
  "translate_along_local_z pos quat offset =
     map2 (\<lambda>p q. vadd (quat_apply q (vscale (Fin 0, Fin 0, Fin 1) offset)) p) pos quat"

text \<open>
  The attributes of the object that are tensors of their own, not views of a simulator
  buffer: \<open>jacobian\<close> and \<open>mass_matrix\<close> are rebound in \<open>acquire_base_tensors\<close> to the
  arrays that \<open>np.concatenate\<close> allocates (moved to the device by \<open>torch.from_numpy(...).to\<close>);
  the fingertip-midpoint position, linear velocity and Jacobian are results of arithmetic.
  \<open>finger_midpoint_pos\<close> is assigned for the first time by \<open>refresh_base_tensors\<close>.
\<close>

record base =
  env :: franka_env
  jacobian :: "fl tensor4"
  mass_matrix :: "fl tensor3"
  finger_midpoint_pos :: "vec3 list option"
  fingertip_midpoint_pos :: "vec3 list"
  fingertip_midpoint_linvel :: "vec3 list"
  fingertip_midpoint_jacobian :: "fl tensor3"
  finger_midpoint_pos_2 :: "vec3 list option"
  fingertip_midpoint_pos_2 :: "vec3 list"
  fingertip_midpoint_linvel_2 :: "vec3 list"
  fingertip_midpoint_jacobian_2 :: "fl tensor3"

text \<open>
  \<open>acquire_base_tensors\<close>, lines 260 to 475. \<open>g\<close> is the contents of the simulator's buffers
  at the time of the call. Creating a view indexes its tensor, which raises when the body
  id is out of range; the views are created in the order of the source (the four views
  of one body index the same tensor at the same id and are checked once).
\<close>

definition acquire_base_tensors :: "gym_tensors \<Rightarrow> franka_env \<Rightarrow> base result" where
  "acquire_base_tensors g e =
     (let mass_matrix = concatenate_axis1 (gym_mass_matrix g) (gym_mass_matrix_2 g);
          concatenated_matrix = concatenate_axis3 (gym_jacobian g) (gym_jacobian_2 g);
          jacobian = concatenate_axis1 concatenated_matrix concatenated_matrix
      in
      rbind (hand_pos g e) (\<lambda>_.
      rbind (hand_jacobian e jacobian) (\<lambda>_.
      rbind (hand_pos_2 g e) (\<lambda>_.
      rbind (hand_jacobian_2 e jacobian) (\<lambda>_.
      rbind (left_finger_pos g e) (\<lambda>_.
      rbind (left_finger_jacobian e jacobian) (\<lambda>lj.
      rbind (left_finger_pos_2 g e) (\<lambda>_.
      rbind (left_finger_jacobian_2 e jacobian) (\<lambda>lj2.
      rbind (right_finger_pos g e) (\<lambda>_.
      rbind (right_finger_jacobian e jacobian) (\<lambda>rj.
      rbind (right_finger_pos_2 g e) (\<lambda>_.
      rbind (right_finger_jacobian_2 e jacobian) (\<lambda>rj2.
      rbind (fingertip_centered_pos g e) (\<lambda>fcp.
      rbind (fingertip_centered_linvel g e) (\<lambda>fcl.
      rbind (fingertip_centered_jacobian e jacobian) (\<lambda>_.
      rbind (fingertip_centered_pos_2 g e) (\<lambda>fcp2.
      rbind (fingertip_centered_linvel_2 g e) (\<lambda>fcl2.
      rbind (fingertip_centered_jacobian_2 e jacobian) (\<lambda>_.
      Inr \<lparr> env = e,
            jacobian = jacobian,
            mass_matrix = mass_matrix,
            finger_midpoint_pos = None,
            fingertip_midpoint_pos = fcp,
            fingertip_midpoint_linvel = fcl,
            fingertip_midpoint_jacobian = tscale (tadd lj rj) (Fin 0.5),
            finger_midpoint_pos_2 = None,
            fingertip_midpoint_pos_2 = fcp2,
            fingertip_midpoint_linvel_2 = fcl2,
            fingertip_midpoint_jacobian_2 = tscale (tadd lj2 rj2) (Fin 0.5) \<rparr>)))))))))))))))))))"

text \<open>
  The block of \<open>refresh_base_tensors\<close> that derives the fingertip-midpoint frame of one arm
  (lines 537 to 546 for arm 1, 549 to 558 for arm 2; the two blocks differ only in the
  views they read). Its result is the finger midpoint, the fingertip-midpoint position,
  linear velocity and Jacobian.
\<close>

definition midpoint_frame ::
  "vec3 list result \<Rightarrow> vec3 list result \<Rightarrow> quat list result \<Rightarrow> fl \<Rightarrow>
   vec3 list result \<Rightarrow> vec3 list result \<Rightarrow> vec3 list result \<Rightarrow>
   fl tensor3 result \<Rightarrow> fl tensor3 result \<Rightarrow>
   (vec3 list \<times> vec3 list \<times> vec3 list \<times> fl tensor3) result" where
  "midpoint_frame left_pos right_pos hquat finger_length centered_linvel centered_angvel
       centered_pos left_jacobian right_jacobian =
     rbind left_pos (\<lambda>lp.
     rbind right_pos (\<lambda>rp.
     rbind hquat (\<lambda>hq.
     rbind centered_linvel (\<lambda>fcl.
     rbind centered_angvel (\<lambda>fca.
     rbind centered_pos (\<lambda>fcp.
     rbind left_jacobian (\<lambda>lj.
     rbind right_jacobian (\<lambda>rj.
       (let finger_mid = map (\<lambda>v. vscale v (Fin 0.5)) (map2 vadd lp rp);
            mid_pos = translate_along_local_z finger_mid hq finger_length;
            mid_linvel = map2 vadd fcl (map2 cross fca (map2 vsub mid_pos fcp));
            mid_jacobian = tscale (tadd lj rj) (Fin 0.5)
        in Inr (finger_mid, mid_pos, mid_linvel, mid_jacobian))))))))))"

text \<open>
  \<open>refresh_base_tensors\<close>. The seven \<open>self.gym.refresh_*\<close> calls make the simulator
  overwrite its own buffers; \<open>g'\<close> is their contents after these calls. The views read
  \<open>g'\<close>; \<open>self.jacobian\<close> is not a simulator buffer and keeps its contents.
\<close>

definition refresh_base_tensors ::
  "gym_tensors \<Rightarrow> 'a base_scheme \<Rightarrow> 'a base_scheme result" where
  "refresh_base_tensors g' s =
     rbind (midpoint_frame (left_finger_pos g' (env s)) (right_finger_pos g' (env s))
              (hand_quat g' (env s)) (franka_finger_length (env s))
              (fingertip_centered_linvel g' (env s)) (fingertip_centered_angvel g' (env s))
              (fingertip_centered_pos g' (env s))
              (left_finger_jacobian (env s) (jacobian s))
              (right_finger_jacobian (env s) (jacobian s)))
       (\<lambda>(fm, mp, ml, mj).
     rbind (midpoint_frame (left_finger_pos_2 g' (env s)) (right_finger_pos_2 g' (env s))
              (hand_quat_2 g' (env s)) (franka_finger_length (env s))
              (fingertip_centered_linvel_2 g' (env s)) (fingertip_centered_angvel_2 g' (env s))
              (fingertip_centered_pos_2 g' (env s))
              (left_finger_jacobian_2 (env s) (jacobian s))
              (right_finger_jacobian_2 (env s) (jacobian s)))
       (\<lambda>(fm2, mp2, ml2, mj2).
     Inr (s\<lparr> finger_midpoint_pos := Some fm,
             fingertip_midpoint_pos := mp,
             fingertip_midpoint_linvel := ml,
             fingertip_midpoint_jacobian := mj,
             finger_midpoint_pos_2 := Some fm2,
             fingertip_midpoint_pos_2 := mp2,
             fingertip_midpoint_linvel_2 := ml2,
             fingertip_midpoint_jacobian_2 := mj2 \<rparr>)))"

text \<open>
  The shapes the simulator gives its tensors (the docstring of \<open>acquire_base_tensors\<close>):
  \<open>n\<close> environments, \<open>nb\<close> bodies per environment, per arm a Jacobian of shape
  \<open>(n, 11, 6, 9)\<close> and a mass matrix of shape \<open>(n, 9, 9)\<close>.
\<close>

definition gym_shapes :: "nat \<Rightarrow> nat \<Rightarrow> gym_tensors \<Rightarrow> bool" where
  "gym_shapes n nb g \<longleftrightarrow>
     length (body_state g) = n \<and> list_all (\<lambda>bodies. length bodies = nb) (body_state g) \<and>
     rect4 n 11 6 9 (gym_jacobian g) \<and> rect3 n 9 9 (gym_mass_matrix g) \<and>
     rect4 n 11 6 9 (gym_jacobian_2 g) \<and> rect3 n 9 9 (gym_mass_matrix_2 g)"

text \<open>
  The body ids of the two arms: a body of arm 1 has an id \<open>k\<close> from 1 to 11 (id 0 is the
  fixed base), and the same body of arm 2 has the id \<open>k + 12\<close> (hand 8 and 20, left finger
  9 and 21 in the docstring of \<open>acquire_base_tensors\<close>).
\<close>

definition arm_ids :: "int \<Rightarrow> int \<Rightarrow> bool" where
  "arm_ids k k2 \<longleftrightarrow> 1 \<le> k \<and> k \<le> 11 \<and> k2 = k + 12"

definition ids_ok :: "nat \<Rightarrow> franka_env \<Rightarrow> bool" where
  "ids_ok nb e \<longleftrightarrow>
     24 \<le> nb \<and>
     arm_ids (hand_body_id_env e) (hand_body_id_env_2 e) \<and>
     arm_ids (left_finger_body_id_env e) (left_finger_body_id_env_2 e) \<and>
     arm_ids (right_finger_body_id_env e) (right_finger_body_id_env_2 e) \<and>
     arm_ids (fingertip_centered_body_id_env e) (fingertip_centered_body_id_env_2 e)"

section \<open>The fingertip-midpoint frame, as specified\<close>

text \<open>
  The formulas of the specification's data model for the derived frame: the midpoint of
  two positions offset by a length along the local z-axis of an orientation, and the
  velocity of a point carried by a body with linear velocity \<open>v\<close> and angular velocity \<open>w\<close>
  at position \<open>p\<close>: \<open>v + w \<times> (p_mid - p)\<close>. \<open>body_at g i k\<close> is the state of body \<open>k\<close> in
  environment \<open>i\<close>.
\<close>

definition midpoint_position :: "vec3 \<Rightarrow> vec3 \<Rightarrow> quat \<Rightarrow> fl \<Rightarrow> vec3" where
  "midpoint_position p_left p_right q len =
     vadd (quat_apply q (vscale (Fin 0, Fin 0, Fin 1) len)) (vscale (vadd p_left p_right) (Fin 0.5))"

definition lever_arm_velocity :: "vec3 \<Rightarrow> vec3 \<Rightarrow> vec3 \<Rightarrow> vec3 \<Rightarrow> vec3" where
  "lever_arm_velocity v w p_mid p = vadd v (cross w (vsub p_mid p))"

definition body_at :: "gym_tensors \<Rightarrow> nat \<Rightarrow> int \<Rightarrow> body_row" where
  "body_at g i k = body_state g ! i ! nat k"

text \<open>
  The whole scene translated by a vector: every body position of the rigid-body state
  moves by \<open>c\<close>; orientations, velocities, Jacobians and mass matrices stay.
\<close>

definition translate_bodies :: "vec3 \<Rightarrow> gym_tensors \<Rightarrow> gym_tensors" where
  "translate_bodies c g =
     g\<lparr> body_state := map (map (\<lambda>b. b\<lparr> row_pos := vadd (row_pos b) c \<rparr>)) (body_state g) \<rparr>"

section \<open>The controller configuration\<close>

text \<open>
  \<open>self.cfg_ctrl\<close> is a dictionary with eighteen fixed keys, every one initialised to \<open>None\<close>:
  a record of optional values. A gain tensor has one row per environment.
\<close>

record cfg_ctrl =
  num_envs :: "nat option"
  jacobian_type :: "string option"
  gripper_prop_gains :: "real tensor2 option"
  gripper_deriv_gains :: "real tensor2 option"
  motor_ctrl_mode :: "string option"
  gain_space :: "string option"
  ik_method :: "string option"
  joint_prop_gains :: "real tensor2 option"
  joint_deriv_gains :: "real tensor2 option"
  do_motion_ctrl :: "bool option"
  task_prop_gains :: "real tensor2 option"
  task_deriv_gains :: "real tensor2 option"
  do_inertial_comp :: "bool option"
  motion_ctrl_axes :: "int tensor2 option"
  do_force_ctrl :: "bool option"
  force_ctrl_method :: "string option"
  wrench_prop_gains :: "real tensor2 option"
  force_ctrl_axes :: "int tensor2 option"

definition cfg_ctrl_None :: cfg_ctrl where
  "cfg_ctrl_None =
     \<lparr> num_envs = None, jacobian_type = None, gripper_prop_gains = None,
       gripper_deriv_gains = None, motor_ctrl_mode = None, gain_space = None,
       ik_method = None, joint_prop_gains = None, joint_deriv_gains = None,
       do_motion_ctrl = None, task_prop_gains = None, task_deriv_gains = None,
       do_inertial_comp = None, motion_ctrl_axes = None, do_force_ctrl = None,
       force_ctrl_method = None, wrench_prop_gains = None, force_ctrl_axes = None \<rparr>"

text \<open>
  \<open>self.cfg_task.ctrl\<close>, the gain bundle of the task configuration: the field
  \<open>ctrl.<group>.<name>\<close> is written \<open><group>_<name>\<close>. The configuration is validated
  against its schema when it is loaded, so every field is present.
\<close>

record cfg_task_ctrl =
  ctrl_type :: string
  all_jacobian_type :: string
  all_gripper_prop_gains :: "real list"
  all_gripper_deriv_gains :: "real list"
  gym_default_ik_method :: string
  gym_default_joint_prop_gains :: "real list"
  gym_default_joint_deriv_gains :: "real list"
  gym_default_gripper_prop_gains :: "real list"
  gym_default_gripper_deriv_gains :: "real list"
  joint_space_ik_ik_method :: string
  joint_space_ik_joint_prop_gains :: "real list"
  joint_space_ik_joint_deriv_gains :: "real list"
  joint_space_id_ik_method :: string
  joint_space_id_joint_prop_gains :: "real list"
  joint_space_id_joint_deriv_gains :: "real list"
  task_space_impedance_task_prop_gains :: "real list"
  task_space_impedance_task_deriv_gains :: "real list"
  task_space_impedance_motion_ctrl_axes :: "int list"
  operational_space_motion_task_prop_gains :: "real list"
  operational_space_motion_task_deriv_gains :: "real list"
  operational_space_motion_motion_ctrl_axes :: "int list"
  open_loop_force_force_ctrl_axes :: "int list"
  closed_loop_force_wrench_prop_gains :: "real list"
  closed_loop_force_force_ctrl_axes :: "int list"
  hybrid_force_motion_task_prop_gains :: "real list"
  hybrid_force_motion_task_deriv_gains :: "real list"
  hybrid_force_motion_motion_ctrl_axes :: "int list"
  hybrid_force_motion_wrench_prop_gains :: "real list"
  hybrid_force_motion_force_ctrl_axes :: "int list"

text \<open>\<open>torch.tensor(xs, device=...).repeat((num_envs, 1))\<close>: \<open>num_envs\<close> rows, each \<open>xs\<close>.\<close>

definition repeat_rows :: "nat \<Rightarrow> 'a list \<Rightarrow> 'a tensor2" where
  "repeat_rows n xs = replicate n xs"

text \<open>
  The simulator's per-actor DOF properties, read and written through
  \<open>get_actor_dof_properties\<close> and \<open>set_actor_dof_properties\<close> by environment pointer and
  actor handle: one drive mode, stiffness and damping per DOF.
\<close>

datatype drive_mode = DOF_MODE_NONE | DOF_MODE_POS | DOF_MODE_VEL | DOF_MODE_EFFORT

record dof_properties =
  driveMode :: "drive_mode list"
  stiffness :: "real list"
  damping :: "real list"

type_synonym actor_dof_properties = "nat \<times> nat \<Rightarrow> dof_properties"

record franka_actors =
  env_ptrs :: "nat list"
  franka_handles :: "nat list"
  franka_handles_2 :: "nat list"

text \<open>
  The dictionary after lines 582 to 591: every key \<open>None\<close>, then the four mode-independent
  keys assigned.
\<close>

definition initial_cfg :: "nat \<Rightarrow> cfg_task_ctrl \<Rightarrow> cfg_ctrl" where
  "initial_cfg n c =
     cfg_ctrl_None
       \<lparr> num_envs := Some n,
         jacobian_type := Some (all_jacobian_type c),
         gripper_prop_gains := Some (repeat_rows n (all_gripper_prop_gains c)),
         gripper_deriv_gains := Some (repeat_rows n (all_gripper_deriv_gains c)) \<rparr>"

text \<open>The \<open>if\<close>/\<open>elif\<close> chain on \<open>ctrl_type\<close>, lines 600 to 697. It has no \<open>else\<close> branch.\<close>

definition mode_fields :: "nat \<Rightarrow> cfg_task_ctrl \<Rightarrow> cfg_ctrl \<Rightarrow> cfg_ctrl" where
  "mode_fields n c cfg =
     (if ctrl_type c = ''gym_default'' then
        cfg\<lparr> motor_ctrl_mode := Some ''gym'',
             gain_space := Some ''joint'',
             ik_method := Some (gym_default_ik_method c),
             joint_prop_gains := Some (repeat_rows n (gym_default_joint_prop_gains c)),
             joint_deriv_gains := Some (repeat_rows n (gym_default_joint_deriv_gains c)),
             gripper_prop_gains := Some (repeat_rows n (gym_default_gripper_prop_gains c)),
             gripper_deriv_gains := Some (repeat_rows n (gym_default_gripper_deriv_gains c)) \<rparr>
      else if ctrl_type c = ''joint_space_ik'' then
        cfg\<lparr> motor_ctrl_mode := Some ''manual'',
             gain_space := Some ''joint'',
             ik_method := Some (joint_space_ik_ik_method c),
             joint_prop_gains := Some (repeat_rows n (joint_space_ik_joint_prop_gains c)),
             joint_deriv_gains := Some (repeat_rows n (joint_space_ik_joint_deriv_gains c)),
             do_inertial_comp := Some False \<rparr>
      else if ctrl_type c = ''joint_space_id'' then
        cfg\<lparr> motor_ctrl_mode := Some ''manual'',
             gain_space := Some ''joint'',
             ik_method := Some (joint_space_id_ik_method c),
             joint_prop_gains := Some (repeat_rows n (joint_space_id_joint_prop_gains c)),
             joint_deriv_gains := Some (repeat_rows n (joint_space_id_joint_deriv_gains c)),
             do_inertial_comp := Some True \<rparr>
      else if ctrl_type c = ''task_space_impedance'' then
        cfg\<lparr> motor_ctrl_mode := Some ''manual'',
             gain_space := Some ''task'',
             do_motion_ctrl := Some True,
             task_prop_gains := Some (repeat_rows n (task_space_impedance_task_prop_gains c)),
             task_deriv_gains := Some (repeat_rows n (task_space_impedance_task_deriv_gains c)),
             do_inertial_comp := Some False,
             motion_ctrl_axes := Some (repeat_rows n (task_space_impedance_motion_ctrl_axes c)),
             do_force_ctrl := Some False \<rparr>
      else if ctrl_type c = ''operational_space_motion'' then
        cfg\<lparr> motor_ctrl_mode := Some ''manual'',
             gain_space := Some ''task'',
             do_motion_ctrl := Some True,
             task_prop_gains := Some (repeat_rows n (operational_space_motion_task_prop_gains c)),
             task_deriv_gains := Some (repeat_rows n (operational_space_motion_task_deriv_gains c)),
             do_inertial_comp := Some True,
             motion_ctrl_axes := Some (repeat_rows n (operational_space_motion_motion_ctrl_axes c)),
             do_force_ctrl := Some False \<rparr>
      else if ctrl_type c = ''open_loop_force'' then
        cfg\<lparr> motor_ctrl_mode := Some ''manual'',
             gain_space := Some ''task'',
             do_motion_ctrl := Some False,
             do_force_ctrl := Some True,
             force_ctrl_method := Some ''open'',
             force_ctrl_axes := Some (repeat_rows n (open_loop_force_force_ctrl_axes c)) \<rparr>
      else if ctrl_type c = ''closed_loop_force'' then
        cfg\<lparr> motor_ctrl_mode := Some ''manual'',
             gain_space := Some ''task'',
             do_motion_ctrl := Some False,
             do_force_ctrl := Some True,
             force_ctrl_method := Some ''closed'',
             wrench_prop_gains := Some (repeat_rows n (closed_loop_force_wrench_prop_gains c)),
             force_ctrl_axes := Some (repeat_rows n (closed_loop_force_force_ctrl_axes c)) \<rparr>
      else if ctrl_type c = ''hybrid_force_motion'' then
        cfg\<lparr> motor_ctrl_mode := Some ''manual'',
             gain_space := Some ''task'',
             do_motion_ctrl := Some True,
             task_prop_gains := Some (repeat_rows n (hybrid_force_motion_task_prop_gains c)),
             task_deriv_gains := Some (repeat_rows n (hybrid_force_motion_task_deriv_gains c)),
             do_inertial_comp := Some True,
             motion_ctrl_axes := Some (repeat_rows n (hybrid_force_motion_motion_ctrl_axes c)),
             do_force_ctrl := Some True,
             force_ctrl_method := Some ''closed'',
             wrench_prop_gains := Some (repeat_rows n (hybrid_force_motion_wrench_prop_gains c)),
             force_ctrl_axes := Some (repeat_rows n (hybrid_force_motion_force_ctrl_axes c)) \<rparr>
      else cfg)"

text \<open>
  The loop of the \<open>'gym'\<close> branch, lines 705 to 711, over
  \<open>zip(self.env_ptrs, self.franka_handles, prop_gains, deriv_gains)\<close>: it reads and writes
  the properties of the actor \<open>franka_handle\<close> only.
\<close>

fun gym_drive_loop ::
  "(nat \<times> nat \<times> real list \<times> real list) list \<Rightarrow> actor_dof_properties \<Rightarrow> actor_dof_properties" where
  "gym_drive_loop [] props = props"
| "gym_drive_loop ((env_ptr, franka_handle, prop_gain, deriv_gain) # rest) props =
     (let franka_dof_props = props (env_ptr, franka_handle);
          franka_dof_props = franka_dof_props
            \<lparr> driveMode := map (\<lambda>_. DOF_MODE_POS) (driveMode franka_dof_props),
              stiffness := prop_gain,
              damping := deriv_gain \<rparr>
      in gym_drive_loop rest (props((env_ptr, franka_handle) := franka_dof_props)))"

text \<open>
  The loop of the \<open>'manual'\<close> branch, lines 718 to 734, over
  \<open>zip(self.env_ptrs, self.franka_handles, self.franka_handles_2)\<close>: both actors' properties
  are read, then both are written.
\<close>

fun manual_drive_loop ::
  "(nat \<times> nat \<times> nat) list \<Rightarrow> actor_dof_properties \<Rightarrow> actor_dof_properties" where
  "manual_drive_loop [] props = props"
| "manual_drive_loop ((env_ptr, franka_handle, franka_handle_2) # rest) props =
     (let franka_dof_props = props (env_ptr, franka_handle);
          franka_dof_props = franka_dof_props
            \<lparr> driveMode := map (\<lambda>_. DOF_MODE_EFFORT) (driveMode franka_dof_props),
              stiffness := map (\<lambda>_. 0) (stiffness franka_dof_props),
              damping := map (\<lambda>_. 0) (damping franka_dof_props) \<rparr>;
          franka_dof_props_2 = props (env_ptr, franka_handle_2);
          franka_dof_props_2 = franka_dof_props_2
            \<lparr> driveMode := map (\<lambda>_. DOF_MODE_EFFORT) (driveMode franka_dof_props_2),
              stiffness := map (\<lambda>_. 0) (stiffness franka_dof_props_2),
              damping := map (\<lambda>_. 0) (damping franka_dof_props_2) \<rparr>;
          props = props((env_ptr, franka_handle) := franka_dof_props);
          props = props((env_ptr, franka_handle_2) := franka_dof_props_2)
      in manual_drive_loop rest props)"

text \<open>
  \<open>parse_controller_spec\<close>: \<open>n\<close> is \<open>self.num_envs\<close>, \<open>c\<close> is \<open>self.cfg_task.ctrl\<close>, \<open>a\<close> the
  environment pointers and actor handles, \<open>props\<close> the simulator's DOF properties. The
  result is \<open>self.cfg_ctrl\<close> and the DOF properties after the call. No statement of the
  function raises an exception of its own; \<open>torch.cat\<close> would raise on a gain that is \<open>None\<close>.
\<close>

definition parse_controller_spec ::
  "nat \<Rightarrow> cfg_task_ctrl \<Rightarrow> franka_actors \<Rightarrow> actor_dof_properties \<Rightarrow>
   (cfg_ctrl \<times> actor_dof_properties) result" where
  "parse_controller_spec n c a props =
     (let cfg = initial_cfg n c;
          cfg = mode_fields n c cfg
      in
      if motor_ctrl_mode cfg = Some ''gym'' then
        (case (joint_prop_gains cfg, gripper_prop_gains cfg,
               joint_deriv_gains cfg, gripper_deriv_gains cfg) of
           (Some jp, Some gp, Some jd, Some gd) \<Rightarrow>
             (let prop_gains = map2 (@) jp gp;
                  deriv_gains = map2 (@) jd gd
              in Inr (cfg, gym_drive_loop
                             (zip (env_ptrs a) (zip (franka_handles a) (zip prop_gains deriv_gains)))
                             props))
         | _ \<Rightarrow> Inl TypeError)
      else if motor_ctrl_mode cfg = Some ''manual'' then
        Inr (cfg, manual_drive_loop
                    (zip (env_ptrs a) (zip (franka_handles a) (franka_handles_2 a))) props)
      else Inr (cfg, props))"

text \<open>
  The eight mode names of the specification's mode table.
\<close>

definition mode_names :: "string list" where
  "mode_names = [''gym_default'', ''joint_space_ik'', ''joint_space_id'', ''task_space_impedance'',
     ''operational_space_motion'', ''open_loop_force'', ''closed_loop_force'', ''hybrid_force_motion'']"


section \<open>Control signals and the command dispatcher\<close>

text \<open>
  The simulator's indexed write primitives called by the base class, as events: the
  tensor written, the actor ids and the count passed with them. A simulator as seen by
  the dispatcher is the list of the writes issued so far.
\<close>

datatype sim_write =
    Set_dof_position_target_tensor_indexed "fl tensor2" "int list" nat
  | Set_dof_actuation_force_tensor_indexed "fl tensor2" "int list" nat

text \<open>
  The attributes of the base class that the control methods read and write, on top of
  the kinematic ones. \<open>None\<close> stands for an attribute that has not been assigned yet.
  The control targets of arm 1 are the attributes initialised at the end of
  \<open>acquire_base_tensors\<close>; the gripper target is the scalar that the task assigns.
\<close>

record ctrl = base +
  cfg_ctrl :: cfg_ctrl
  fingertip_midpoint_jacobian_tf :: "fl tensor3 option"
  fingertip_midpoint_jacobian_tf_2 :: "fl tensor3 option"
  dof_torque :: "fl tensor2"
  dof_torque_2 :: "fl tensor2 option"
  ctrl_target_dof_pos :: "fl tensor2"
  franka_actor_ids_sim :: "int list"
  franka_actor_ids_sim_2 :: "int list"
  franka_actor_ids_sim_concat :: "int list option"
  ctrl_target_fingertip_midpoint_pos :: "vec3 list"
  ctrl_target_fingertip_midpoint_quat :: "quat list"
  ctrl_target_fingertip_contact_wrench :: "(vec3 \<times> vec3) list"
  ctrl_target_gripper_dof_pos :: fl

text \<open>
  The functions of the module \<open>factory_control_MARL2\<close> (imported as \<open>fc\<close>) that the control
  methods call. The module is not among the modelled files: the functions are parameters,
  each a function of the object it reads its arguments from, and each may raise.
\<close>

record 's factory_control =
  get_analytic_jacobian :: "'s \<Rightarrow> fl tensor3 result"
  compute_dof_pos_target :: "'s \<Rightarrow> fl tensor2 result"
  compute_dof_torque :: "'s \<Rightarrow> fl tensor2 result"
  compute_dof_torque_2 :: "'s \<Rightarrow> fl tensor2 result"

text \<open>
  \<open>torch.cat((a, b), dim=1)\<close> on rank-2 tensors appends the rows pairwise and raises when
  the two tensors differ in the number of rows.
\<close>

definition torch_cat_dim1 :: "'a tensor2 \<Rightarrow> 'a tensor2 \<Rightarrow> 'a tensor2 result" where
  "torch_cat_dim1 a b = (if length a = length b then Inr (map2 (@) a b) else Inl RuntimeError)"

text \<open>The first block of \<open>generate_ctrl_signals\<close>, lines 747 to 758: the desired Jacobian.\<close>

definition get_desired_jacobian ::
  "'x ctrl_scheme factory_control \<Rightarrow> 'x ctrl_scheme \<Rightarrow> 'x ctrl_scheme result" where
  "get_desired_jacobian fc s =
     (if jacobian_type (cfg_ctrl s) = Some ''geometric'' then
        Inr (s\<lparr> fingertip_midpoint_jacobian_tf := Some (fingertip_midpoint_jacobian s),
                fingertip_midpoint_jacobian_tf_2 := Some (fingertip_midpoint_jacobian_2 s) \<rparr>)
      else if jacobian_type (cfg_ctrl s) = Some ''analytic'' then
        rbind (get_analytic_jacobian fc s) (\<lambda>j.
          Inr (s\<lparr> fingertip_midpoint_jacobian_tf := Some j \<rparr>))
      else Inr s)"

text \<open>\<open>_set_dof_pos_target\<close>, \<open>_set_dof_torque\<close>, \<open>_set_dof_torque_2\<close> and \<open>_wrap_tensor\<close>.\<close>

definition set_dof_pos_target ::
  "'x ctrl_scheme factory_control \<Rightarrow> 'x ctrl_scheme \<Rightarrow> sim_write list \<Rightarrow>
   ('x ctrl_scheme \<times> sim_write list) result" where
  "set_dof_pos_target fc s sim =
     rbind (compute_dof_pos_target fc s) (\<lambda>t.
       Inr (s\<lparr> ctrl_target_dof_pos := t \<rparr>,
            sim @ [Set_dof_position_target_tensor_indexed t (franka_actor_ids_sim s)
                     (length (franka_actor_ids_sim s))]))"

definition set_dof_torque ::
  "'x ctrl_scheme factory_control \<Rightarrow> 'x ctrl_scheme \<Rightarrow> 'x ctrl_scheme result" where
  "set_dof_torque fc s = rbind (compute_dof_torque fc s) (\<lambda>t. Inr (s\<lparr> dof_torque := t \<rparr>))"

definition set_dof_torque_2 ::
  "'x ctrl_scheme factory_control \<Rightarrow> 'x ctrl_scheme \<Rightarrow> 'x ctrl_scheme result" where
  "set_dof_torque_2 fc s =
     rbind (compute_dof_torque_2 fc s) (\<lambda>t. Inr (s\<lparr> dof_torque_2 := Some t \<rparr>))"

definition wrap_tensor ::
  "'x ctrl_scheme \<Rightarrow> sim_write list \<Rightarrow> ('x ctrl_scheme \<times> sim_write list) result" where
  "wrap_tensor s sim =
     (let franka_actor_ids_sim_concat = franka_actor_ids_sim s @ franka_actor_ids_sim_2 s
      in Inr (s\<lparr> franka_actor_ids_sim_concat := Some franka_actor_ids_sim_concat \<rparr>,
              sim @ [Set_dof_actuation_force_tensor_indexed (dof_torque s)
                       franka_actor_ids_sim_concat (length franka_actor_ids_sim_concat)]))"

text \<open>\<open>generate_ctrl_signals\<close>: the desired Jacobian, then the branch on the backend.\<close>

definition generate_ctrl_signals ::
  "'x ctrl_scheme factory_control \<Rightarrow> 'x ctrl_scheme \<Rightarrow> sim_write list \<Rightarrow>
   ('x ctrl_scheme \<times> sim_write list) result" where
  "generate_ctrl_signals fc s sim =
     rbind (get_desired_jacobian fc s) (\<lambda>s.
       if motor_ctrl_mode (cfg_ctrl s) = Some ''gym'' then set_dof_pos_target fc s sim
       else if motor_ctrl_mode (cfg_ctrl s) = Some ''manual'' then
         rbind (set_dof_torque fc s) (\<lambda>s.
         rbind (set_dof_torque_2 fc s) (\<lambda>s.
         rbind (case dof_torque_2 s of
                  None \<Rightarrow> Inl AttributeError
                | Some t2 \<Rightarrow> torch_cat_dim1 (dof_torque s) t2) (\<lambda>t.
         wrap_tensor (s\<lparr> dof_torque := t \<rparr>) sim)))
       else Inr (s, sim))"

section \<open>The task: actions as control targets\<close>

text \<open>
  The functions of the library module \<open>isaacgym.torch_utils\<close> that the task calls, on one
  row, written out from the library's definitions (the library is not part of the
  repository): \<open>normalize(x, eps = 1e-9) = x / x.norm(p=2, dim=-1).clamp(min=eps)\<close>,
  \<open>quat_unit = normalize\<close>, \<open>quat_from_angle_axis\<close> and \<open>quat_mul\<close>. A quaternion is
  \<open>(x, y, z, w)\<close>.
\<close>

fun norm3 :: "vec3 \<Rightarrow> fl" where
  "norm3 (a, b, c) = fsqrt (fadd (fadd (fmul a a) (fmul b b)) (fmul c c))"

fun norm4 :: "quat \<Rightarrow> fl" where
  "norm4 (x, y, z, w) = fsqrt (fadd (fadd (fadd (fmul x x) (fmul y y)) (fmul z z)) (fmul w w))"

fun vdiv :: "vec3 \<Rightarrow> fl \<Rightarrow> vec3" where
  "vdiv (a, b, c) k = (fdiv a k, fdiv b k, fdiv c k)"

definition normalize :: "vec3 \<Rightarrow> vec3" where
  "normalize v = vdiv v (fclamp_min (norm3 v) (1 / 10 ^ 9))"

fun quat_unit :: "quat \<Rightarrow> quat" where
  "quat_unit (x, y, z, w) =
     (let k = fclamp_min (norm4 (x, y, z, w)) (1 / 10 ^ 9)
      in (fdiv x k, fdiv y k, fdiv z k, fdiv w k))"

definition quat_from_angle_axis :: "fl \<Rightarrow> vec3 \<Rightarrow> quat" where
  "quat_from_angle_axis angle axis =
     (let theta = fdiv angle (Fin 2);
          (x, y, z) = vscale (normalize axis) (fsin theta);
          w = fcos theta
      in quat_unit (x, y, z, w))"

fun quat_mul :: "quat \<Rightarrow> quat \<Rightarrow> quat" where
  "quat_mul (x1, y1, z1, w1) (x2, y2, z2, w2) =
     (let ww = fmul (fadd z1 x1) (fadd x2 y2);
          yy = fmul (fsub w1 y1) (fadd w2 z2);
          zz = fmul (fadd w1 y1) (fsub w2 z2);
          xx = fadd (fadd ww yy) zz;
          qq = fmul (Fin 0.5) (fadd xx (fmul (fsub z1 x1) (fsub x2 y2)));
          w = fadd (fsub qq ww) (fmul (fsub z1 y1) (fsub y2 z2));
          x = fadd (fsub qq xx) (fmul (fadd x1 w1) (fadd x2 w2));
          y = fadd (fsub qq yy) (fmul (fsub w1 x1) (fadd y2 z2));
          z = fadd (fsub qq zz) (fmul (fadd z1 y1) (fsub w2 x2))
      in (x, y, z, w))"

text \<open>
  \<open>v @ torch.diag(torch.tensor(scale))\<close> on one row: the product of a row vector with the
  diagonal matrix of the three scales, every term of the sum written out.
\<close>

fun matmul_diag :: "vec3 \<Rightarrow> real \<times> real \<times> real \<Rightarrow> vec3" where
  "matmul_diag (v1, v2, v3) (s1, s2, s3) =
     (fadd (fadd (fmul v1 (Fin s1)) (fmul v2 (Fin 0))) (fmul v3 (Fin 0)),
      fadd (fadd (fmul v1 (Fin 0)) (fmul v2 (Fin s2))) (fmul v3 (Fin 0)),
      fadd (fadd (fmul v1 (Fin 0)) (fmul v2 (Fin 0))) (fmul v3 (Fin s3)))"

text \<open>
  \<open>actions[:, a:a+3]\<close> on one row of the action tensor, whose shape is
  \<open>(num_envs, 24)\<close>: twelve entries per arm.
\<close>

definition slice3 :: "fl list \<Rightarrow> nat \<Rightarrow> vec3" where
  "slice3 row a = (row ! a, row ! (a + 1), row ! (a + 2))"

text \<open>\<open>self.cfg_task.rl\<close>: the action scales and the rotation clamp.\<close>

record cfg_task_rl =
  pos_action_scale :: "real \<times> real \<times> real"
  rot_action_scale :: "real \<times> real \<times> real"
  force_action_scale :: "real \<times> real \<times> real"
  torque_action_scale :: "real \<times> real \<times> real"
  clamp_rot :: bool
  clamp_rot_thresh :: real

text \<open>
  The attributes that the task class reads and writes under its own names for the second
  arm (\<open>second_...\<close>), and the task configuration.
\<close>

record task = ctrl +
  cfg_task_rl :: cfg_task_rl
  second_fingertip_midpoint_pos :: "vec3 list"
  second_fingertip_midpoint_quat :: "quat list"
  second_ctrl_target_fingertip_midpoint_pos :: "vec3 list"
  second_ctrl_target_fingertip_midpoint_quat :: "quat list"
  second_ctrl_target_fingertip_contact_wrench :: "(vec3 \<times> vec3) list"
  second_ctrl_target_gripper_dof_pos :: fl

text \<open>\<open>actions[:, a:a+3]\<close>, scaled by \<open>@ torch.diag(scale)\<close> when \<open>do_scale\<close>.\<close>

definition scaled_actions ::
  "bool \<Rightarrow> real \<times> real \<times> real \<Rightarrow> fl list list \<Rightarrow> nat \<Rightarrow> vec3 list" where
  "scaled_actions do_scale scale actions a =
     (let sub = map (\<lambda>row. slice3 row a) actions
      in if do_scale then map (\<lambda>v. matmul_diag v scale) sub else sub)"

text \<open>
  Lines 380 to 387 (arm 1) and 390 to 397 (arm 2): the rotation actions as quaternions.
  The axis is the rotation action divided by its norm; when \<open>clamp_rot\<close> is set,
  \<open>torch.where\<close> keeps the quaternion of a row whose angle exceeds the threshold and takes
  the identity quaternion, repeated \<open>num_envs\<close> times, for the other rows.
\<close>

definition rot_actions_quat :: "cfg_task_rl \<Rightarrow> nat \<Rightarrow> vec3 list \<Rightarrow> quat list" where
  "rot_actions_quat rl n rot_actions =
     (let angle = map norm3 rot_actions;
          axis = map2 vdiv rot_actions angle;
          rot_actions_quat = map2 quat_from_angle_axis angle axis
      in if clamp_rot rl then
           map (\<lambda>(a, q, identity). if fgt a (Fin (clamp_rot_thresh rl)) then q else identity)
             (zip angle (zip rot_actions_quat (replicate n (Fin 0, Fin 0, Fin 0, Fin 1))))
         else rot_actions_quat)"

text \<open>
  \<open>_apply_actions_as_ctrl_targets\<close> up to its last statement: \<open>g\<close> is the simulator's
  tensors (the fingertip-midpoint orientation of arm 1 is a view of the body state), \<open>n\<close>
  is \<open>self.num_envs\<close>.
\<close>

definition set_ctrl_targets ::
  "gym_tensors \<Rightarrow> nat \<Rightarrow> fl list list \<Rightarrow> fl \<Rightarrow> bool \<Rightarrow> 'x task_scheme \<Rightarrow> 'x task_scheme result" where
  "set_ctrl_targets g n actions gripper_dof_pos do_scale s =
     (let rl = cfg_task_rl s;
          pos_actions = scaled_actions do_scale (pos_action_scale rl) actions 0;
          s = s\<lparr> ctrl_target_fingertip_midpoint_pos := map2 vadd (fingertip_midpoint_pos s) pos_actions \<rparr>;
          second_pos_actions = scaled_actions do_scale (pos_action_scale rl) actions 12;
          s = s\<lparr> second_ctrl_target_fingertip_midpoint_pos :=
                   map2 vadd (second_fingertip_midpoint_pos s) second_pos_actions \<rparr>;
          rot_actions = scaled_actions do_scale (rot_action_scale rl) actions 3;
          second_rot_actions = scaled_actions do_scale (rot_action_scale rl) actions 15
      in
      rbind (fingertip_midpoint_quat g (env s)) (\<lambda>fingertip_midpoint_quat.
        (let s = s\<lparr> ctrl_target_fingertip_midpoint_quat :=
                       map2 quat_mul (rot_actions_quat rl n rot_actions) fingertip_midpoint_quat \<rparr>;
             s = s\<lparr> second_ctrl_target_fingertip_midpoint_quat :=
                       map2 quat_mul (rot_actions_quat rl n second_rot_actions)
                         (second_fingertip_midpoint_quat s) \<rparr>;
             s = (if do_force_ctrl (cfg_ctrl s) = Some True then
                    (let force_actions = scaled_actions do_scale (force_action_scale rl) actions 6;
                         second_force_actions =
                           scaled_actions do_scale (force_action_scale rl) actions 18;
                         torque_actions = scaled_actions do_scale (torque_action_scale rl) actions 9;
                         second_torque_actions =
                           scaled_actions do_scale (torque_action_scale rl) actions 21
                     in s\<lparr> ctrl_target_fingertip_contact_wrench := zip force_actions torque_actions,
                             second_ctrl_target_fingertip_contact_wrench :=
                               zip second_force_actions second_torque_actions \<rparr>)
                  else s)
         in Inr (s\<lparr> ctrl_target_gripper_dof_pos := gripper_dof_pos,
                    second_ctrl_target_gripper_dof_pos := gripper_dof_pos \<rparr>))))"

text \<open>\<open>_apply_actions_as_ctrl_targets\<close>: the targets, then \<open>self.generate_ctrl_signals()\<close>.\<close>

definition apply_actions_as_ctrl_targets ::
  "'x task_scheme factory_control \<Rightarrow> gym_tensors \<Rightarrow> nat \<Rightarrow> fl list list \<Rightarrow> fl \<Rightarrow> bool \<Rightarrow>
   'x task_scheme \<Rightarrow> sim_write list \<Rightarrow> ('x task_scheme \<times> sim_write list) result" where
  "apply_actions_as_ctrl_targets fc g n actions gripper_dof_pos do_scale s sim =
     rbind (set_ctrl_targets g n actions gripper_dof_pos do_scale s) (\<lambda>s.
       generate_ctrl_signals fc s sim)"

section \<open>Statements about the controller configuration\<close>

text \<open>
  The two axis masks of a configuration are never both one at an axis (when both masks
  are set; a mask that is \<open>None\<close> controls no axis).
\<close>

definition axes_never_both_one :: "int list \<Rightarrow> int list \<Rightarrow> bool" where
  "axes_never_both_one m f = list_all (\<lambda>(x, y). \<not> (x = 1 \<and> y = 1)) (zip m f)"

definition masks_never_both_one :: "cfg_ctrl \<Rightarrow> bool" where
  "masks_never_both_one cfg =
     (case (motion_ctrl_axes cfg, force_ctrl_axes cfg) of
        (Some m, Some f) \<Rightarrow> list_all (\<lambda>(mrow, frow). axes_never_both_one mrow frow) (zip m f)
      | _ \<Rightarrow> True)"

text \<open>
  The mode table of the specification, section 4.2: mode name, backend (\<open>gym\<close> is the
  native PD backend), gain space, inertial compensation (\<open>None\<close> for "n/a") and force
  control (\<open>None\<close> for "no").
\<close>

type_synonym mode_row = "string \<times> string \<times> bool option \<times> string option"

definition mode_table :: "(string \<times> mode_row) list" where
  "mode_table =
     [(''gym_default'', ''gym'', ''joint'', None, None),
      (''joint_space_ik'', ''manual'', ''joint'', Some False, None),
      (''joint_space_id'', ''manual'', ''joint'', Some True, None),
      (''task_space_impedance'', ''manual'', ''task'', Some False, None),
      (''operational_space_motion'', ''manual'', ''task'', Some True, None),
      (''open_loop_force'', ''manual'', ''task'', None, Some ''open''),
      (''closed_loop_force'', ''manual'', ''task'', None, Some ''closed''),
      (''hybrid_force_motion'', ''manual'', ''task'', Some True, Some ''closed'')]"

text \<open>
  The keys of the configuration and which of them a row of the table makes relevant:
  the mode-independent keys, the backend and the gain space always; the joint gains and
  the inverse-kinematics method in joint space; the two control flags in task space; the
  inertial-compensation flag unless it is "n/a"; the task gains and the motion-axis mask
  for the task-space modes with a motion law (those whose inertial compensation is not
  "n/a"); the force-control method and the force-axis mask with force control; the wrench
  gains with closed-loop force control.
\<close>

definition cfg_ctrl_keys :: "string list" where
  "cfg_ctrl_keys =
     [''num_envs'', ''jacobian_type'', ''gripper_prop_gains'', ''gripper_deriv_gains'',
      ''motor_ctrl_mode'', ''gain_space'', ''ik_method'', ''joint_prop_gains'',
      ''joint_deriv_gains'', ''do_motion_ctrl'', ''task_prop_gains'', ''task_deriv_gains'',
      ''do_inertial_comp'', ''motion_ctrl_axes'', ''do_force_ctrl'', ''force_ctrl_method'',
      ''wrench_prop_gains'', ''force_ctrl_axes'']"

definition relevant :: "mode_row \<Rightarrow> string \<Rightarrow> bool" where
  "relevant row key =
     (case row of (backend, space, inertial, force) \<Rightarrow>
        key \<in> set [''num_envs'', ''jacobian_type'', ''gripper_prop_gains'',
                     ''gripper_deriv_gains'', ''motor_ctrl_mode'', ''gain_space''] \<or>
        (space = ''joint'' \<and>
           key \<in> set [''ik_method'', ''joint_prop_gains'', ''joint_deriv_gains'']) \<or>
        (space = ''task'' \<and> key \<in> set [''do_motion_ctrl'', ''do_force_ctrl'']) \<or>
        (inertial \<noteq> None \<and> key = ''do_inertial_comp'') \<or>
        (space = ''task'' \<and> inertial \<noteq> None \<and>
           key \<in> set [''task_prop_gains'', ''task_deriv_gains'', ''motion_ctrl_axes'']) \<or>
        (force \<noteq> None \<and> key \<in> set [''force_ctrl_method'', ''force_ctrl_axes'']) \<or>
        (force = Some ''closed'' \<and> key = ''wrench_prop_gains''))"

text \<open>\<open>cfg_ctrl[key] is None\<close>.\<close>

definition is_None :: "cfg_ctrl \<Rightarrow> string \<Rightarrow> bool" where
  "is_None cfg key =
     (if key = ''num_envs'' then num_envs cfg = None
      else if key = ''jacobian_type'' then jacobian_type cfg = None
      else if key = ''gripper_prop_gains'' then gripper_prop_gains cfg = None
      else if key = ''gripper_deriv_gains'' then gripper_deriv_gains cfg = None
      else if key = ''motor_ctrl_mode'' then motor_ctrl_mode cfg = None
      else if key = ''gain_space'' then gain_space cfg = None
      else if key = ''ik_method'' then ik_method cfg = None
      else if key = ''joint_prop_gains'' then joint_prop_gains cfg = None
      else if key = ''joint_deriv_gains'' then joint_deriv_gains cfg = None
      else if key = ''do_motion_ctrl'' then do_motion_ctrl cfg = None
      else if key = ''task_prop_gains'' then task_prop_gains cfg = None
      else if key = ''task_deriv_gains'' then task_deriv_gains cfg = None
      else if key = ''do_inertial_comp'' then do_inertial_comp cfg = None
      else if key = ''motion_ctrl_axes'' then motion_ctrl_axes cfg = None
      else if key = ''do_force_ctrl'' then do_force_ctrl cfg = None
      else if key = ''force_ctrl_method'' then force_ctrl_method cfg = None
      else if key = ''wrench_prop_gains'' then wrench_prop_gains cfg = None
      else if key = ''force_ctrl_axes'' then force_ctrl_axes cfg = None
      else False)"

text \<open>
  The produced configuration agrees with a row of the table: backend, gain space,
  inertial compensation and force-control method are the row's, force control is switched
  on exactly when the row has force control, and a key is \<open>None\<close> exactly when the row
  does not make it relevant.
\<close>

definition agrees_with_row :: "cfg_ctrl \<Rightarrow> mode_row \<Rightarrow> bool" where
  "agrees_with_row cfg row =
     (case row of (backend, space, inertial, force) \<Rightarrow>
        motor_ctrl_mode cfg = Some backend \<and>
        gain_space cfg = Some space \<and>
        do_inertial_comp cfg = inertial \<and>
        force_ctrl_method cfg = force \<and>
        (do_force_ctrl cfg = Some True) = (force \<noteq> None) \<and>
        list_all (\<lambda>key. is_None cfg key = (\<not> relevant row key)) cfg_ctrl_keys)"

section \<open>Example inputs\<close>

text \<open>
  One environment with 27 bodies and two arms. The entries of the example tensors encode
  their own index, so that two different entries differ.
\<close>

definition example_jacobian :: "nat \<Rightarrow> fl tensor4" where
  "example_jacobian off =
     [map (\<lambda>l. map (\<lambda>r. map (\<lambda>c. Fin (real (off + 100 * l + 10 * r + c))) [0..<9]) [0..<6])
        [0..<11]]"

definition example_mass_matrix :: "nat \<Rightarrow> fl tensor3" where
  "example_mass_matrix off = [map (\<lambda>i. map (\<lambda>j. Fin (real (off + 10 * i + j))) [0..<9]) [0..<9]]"

definition example_body :: "nat \<Rightarrow> body_row" where
  "example_body k =
     \<lparr> row_pos = (Fin (real k), Fin 0, Fin 1),
       row_quat = (Fin 0, Fin 0, Fin 0, Fin 1),
       row_linvel = (Fin 0, Fin (real k), Fin 0),
       row_angvel = (Fin 0, Fin 0, Fin 1) \<rparr>"

definition example_gym :: "nat \<Rightarrow> gym_tensors" where
  "example_gym off =
     \<lparr> body_state = [map example_body [0..<27]],
       gym_jacobian = example_jacobian off,
       gym_mass_matrix = example_mass_matrix off,
       gym_jacobian_2 = example_jacobian (off + 5000),
       gym_mass_matrix_2 = example_mass_matrix (off + 5000) \<rparr>"

definition example_env :: franka_env where
  "example_env =
     \<lparr> hand_body_id_env = 8, hand_body_id_env_2 = 20,
       left_finger_body_id_env = 9, left_finger_body_id_env_2 = 21,
       right_finger_body_id_env = 10, right_finger_body_id_env_2 = 22,
       fingertip_centered_body_id_env = 11, fingertip_centered_body_id_env_2 = 23,
       franka_finger_length = Fin 0.053671 \<rparr>"

definition example_ctrl :: "string \<Rightarrow> int list \<Rightarrow> int list \<Rightarrow> cfg_task_ctrl" where
  "example_ctrl name motion_axes force_axes =
     \<lparr> ctrl_type = name,
       all_jacobian_type = ''geometric'',
       all_gripper_prop_gains = [50, 50],
       all_gripper_deriv_gains = [2, 2],
       gym_default_ik_method = ''dls'',
       gym_default_joint_prop_gains = [40, 40, 40, 40, 40, 40, 40],
       gym_default_joint_deriv_gains = [8, 8, 8, 8, 8, 8, 8],
       gym_default_gripper_prop_gains = [500, 500],
       gym_default_gripper_deriv_gains = [20, 20],
       joint_space_ik_ik_method = ''dls'',
       joint_space_ik_joint_prop_gains = [1, 1, 1, 1, 1, 1, 1],
       joint_space_ik_joint_deriv_gains = [1, 1, 1, 1, 1, 1, 1],
       joint_space_id_ik_method = ''dls'',
       joint_space_id_joint_prop_gains = [40, 40, 40, 40, 40, 40, 40],
       joint_space_id_joint_deriv_gains = [8, 8, 8, 8, 8, 8, 8],
       task_space_impedance_task_prop_gains = [40, 40, 40, 40, 40, 40],
       task_space_impedance_task_deriv_gains = [8, 8, 8, 8, 8, 8],
       task_space_impedance_motion_ctrl_axes = [1, 1, 1, 1, 1, 1],
       operational_space_motion_task_prop_gains = [1, 1, 1, 1, 1, 1],
       operational_space_motion_task_deriv_gains = [1, 1, 1, 1, 1, 1],
       operational_space_motion_motion_ctrl_axes = [1, 1, 1, 1, 1, 1],
       open_loop_force_force_ctrl_axes = [0, 0, 1, 0, 0, 0],
       closed_loop_force_wrench_prop_gains = [1, 1, 1, 1, 1, 1],
       closed_loop_force_force_ctrl_axes = [0, 0, 1, 0, 0, 0],
       hybrid_force_motion_task_prop_gains = [40, 40, 40, 40, 40, 40],
       hybrid_force_motion_task_deriv_gains = [8, 8, 8, 8, 8, 8],
       hybrid_force_motion_motion_ctrl_axes = motion_axes,
       hybrid_force_motion_wrench_prop_gains = [1, 1, 1, 1, 1, 1],
       hybrid_force_motion_force_ctrl_axes = force_axes \<rparr>"

definition example_actors :: franka_actors where
  "example_actors = \<lparr> env_ptrs = [0], franka_handles = [0], franka_handles_2 = [1] \<rparr>"

definition example_props :: actor_dof_properties where
  "example_props = (\<lambda>_. \<lparr> driveMode = replicate 9 DOF_MODE_NONE,
                           stiffness = replicate 9 0, damping = replicate 9 0 \<rparr>)"

definition example_factory_control :: "'x ctrl_scheme factory_control" where
  "example_factory_control =
     \<lparr> get_analytic_jacobian = (\<lambda>s. Inr (fingertip_midpoint_jacobian s)),
       compute_dof_pos_target = (\<lambda>s. Inr (ctrl_target_dof_pos s)),
       compute_dof_torque = (\<lambda>s. Inr [map Fin [1, 2, 3, 4, 5, 6, 7, 8, 9]]),
       compute_dof_torque_2 = (\<lambda>s. Inr [map Fin [11, 12, 13, 14, 15, 16, 17, 18, 19]]) \<rparr>"

definition example_ctrl_state :: ctrl where
  "example_ctrl_state =
     \<lparr> env = example_env, jacobian = [], mass_matrix = [],
       finger_midpoint_pos = None, fingertip_midpoint_pos = [(Fin 0, Fin 0, Fin 0)],
       fingertip_midpoint_linvel = [(Fin 0, Fin 0, Fin 0)], fingertip_midpoint_jacobian = [],
       finger_midpoint_pos_2 = None, fingertip_midpoint_pos_2 = [(Fin 0, Fin 0, Fin 0)],
       fingertip_midpoint_linvel_2 = [(Fin 0, Fin 0, Fin 0)], fingertip_midpoint_jacobian_2 = [],
       cfg_ctrl = mode_fields 1 (example_ctrl ''joint_space_id'' [] [])
                    (initial_cfg 1 (example_ctrl ''joint_space_id'' [] [])),
       fingertip_midpoint_jacobian_tf = None, fingertip_midpoint_jacobian_tf_2 = None,
       dof_torque = [replicate 18 (Fin 0)], dof_torque_2 = None,
       ctrl_target_dof_pos = [replicate 18 (Fin 0)],
       franka_actor_ids_sim = [0], franka_actor_ids_sim_2 = [4],
       franka_actor_ids_sim_concat = None,
       ctrl_target_fingertip_midpoint_pos = [(Fin 0, Fin 0, Fin 0)],
       ctrl_target_fingertip_midpoint_quat = [(Fin 0, Fin 0, Fin 0, Fin 0)],
       ctrl_target_fingertip_contact_wrench = [((Fin 0, Fin 0, Fin 0), (Fin 0, Fin 0, Fin 0))],
       ctrl_target_gripper_dof_pos = Fin 0 \<rparr>"

text \<open>
  A body state in which the fingertip-centered bodies of the two arms (bodies 11 and 23)
  are at rest and turned half a turn about the x-axis, while the hands are as in
  \<open>example_gym\<close>.
\<close>

definition example_gym_split :: gym_tensors where
  "example_gym_split =
     (example_gym 0)
       \<lparr> body_state :=
           [(map example_body [0..<27])
              [11 := \<lparr> row_pos = (Fin 11, Fin 0, Fin 1), row_quat = (Fin 1, Fin 0, Fin 0, Fin 0),
                       row_linvel = (Fin 0, Fin 0, Fin 0), row_angvel = (Fin 0, Fin 0, Fin 0) \<rparr>,
               23 := \<lparr> row_pos = (Fin 23, Fin 0, Fin 1), row_quat = (Fin 1, Fin 0, Fin 0, Fin 0),
                       row_linvel = (Fin 0, Fin 0, Fin 0), row_angvel = (Fin 0, Fin 0, Fin 0) \<rparr>]] \<rparr>"

text \<open>
  An object of the task class in one environment: manual backend (joint_space_id), both
  arms' fingertip-midpoint orientations the identity rotation.
\<close>

definition example_task_state :: "bool \<Rightarrow> task" where
  "example_task_state clamp =
     \<lparr> env = example_env, jacobian = [], mass_matrix = [],
       finger_midpoint_pos = None, fingertip_midpoint_pos = [(Fin 0, Fin 0, Fin 0)],
       fingertip_midpoint_linvel = [(Fin 0, Fin 0, Fin 0)], fingertip_midpoint_jacobian = [],
       finger_midpoint_pos_2 = None, fingertip_midpoint_pos_2 = [(Fin 0, Fin 0, Fin 0)],
       fingertip_midpoint_linvel_2 = [(Fin 0, Fin 0, Fin 0)], fingertip_midpoint_jacobian_2 = [],
       cfg_ctrl = mode_fields 1 (example_ctrl ''joint_space_id'' [] [])
                    (initial_cfg 1 (example_ctrl ''joint_space_id'' [] [])),
       fingertip_midpoint_jacobian_tf = None, fingertip_midpoint_jacobian_tf_2 = None,
       dof_torque = [replicate 18 (Fin 0)], dof_torque_2 = None,
       ctrl_target_dof_pos = [replicate 18 (Fin 0)],
       franka_actor_ids_sim = [0], franka_actor_ids_sim_2 = [4],
       franka_actor_ids_sim_concat = None,
       ctrl_target_fingertip_midpoint_pos = [(Fin 0, Fin 0, Fin 0)],
       ctrl_target_fingertip_midpoint_quat = [(Fin 0, Fin 0, Fin 0, Fin 0)],
       ctrl_target_fingertip_contact_wrench = [((Fin 0, Fin 0, Fin 0), (Fin 0, Fin 0, Fin 0))],
       ctrl_target_gripper_dof_pos = Fin 0,
       cfg_task_rl = \<lparr> pos_action_scale = (0.1, 0.1, 0.1), rot_action_scale = (0.1, 0.1, 0.1),
                       force_action_scale = (1, 1, 1), torque_action_scale = (1, 1, 1),
                       clamp_rot = clamp, clamp_rot_thresh = 1 / 10 ^ 6 \<rparr>,
       second_fingertip_midpoint_pos = [(Fin 0, Fin 0, Fin 0)],
       second_fingertip_midpoint_quat = [(Fin 0, Fin 0, Fin 0, Fin 1)],
       second_ctrl_target_fingertip_midpoint_pos = [(Fin 0, Fin 0, Fin 0)],
       second_ctrl_target_fingertip_midpoint_quat = [(Fin 0, Fin 0, Fin 0, Fin 0)],
       second_ctrl_target_fingertip_contact_wrench = [((Fin 0, Fin 0, Fin 0), (Fin 0, Fin 0, Fin 0))],
       second_ctrl_target_gripper_dof_pos = Fin 0 \<rparr>"

text \<open>
  The action tensor of one environment with every entry zero (the \<open>delta_hand_pose\<close> of
  \<open>_move_gripper_to_dof_pos\<close>).
\<close>

definition zero_actions :: "fl list list" where
  "zero_actions = [replicate 24 (Fin 0)]"

section \<open>Results, indexing and concatenation\<close>

lemma rbind_Inr [simp]: "rbind (Inr x) f = f x"
  by (simp add: rbind_def)

lemma rbind_Inl [simp]: "rbind (Inl e) f = Inl e"
  by (simp add: rbind_def)

lemma rbind_eq_Inr: "rbind r f = Inr y \<longleftrightarrow> (\<exists>x. r = Inr x \<and> f x = Inr y)"
  by (cases r) simp_all

lemma collect_map_Inr: "(\<And>x. x \<in> set xs \<Longrightarrow> f x = Inr (h x)) \<Longrightarrow> collect (map f xs) = Inr (map h xs)"
  by (induction xs) simp_all

lemma py_index_in_range: "0 \<le> k \<Longrightarrow> k < int (length xs) \<Longrightarrow> py_index xs k = Inr (xs ! nat k)"
  by (simp add: py_index_def)

lemma index_dim1_rect:
  assumes "list_all (\<lambda>env. length env = l) t" "0 \<le> k" "k < int l"
  shows "index_dim1 t k = Inr (map (\<lambda>env. env ! nat k) t)"
  unfolding index_dim1_def
  by (rule collect_map_Inr) (use assms in \<open>auto simp: list_all_iff py_index_in_range\<close>)

lemma rect3_length: "rect3 l r c a \<Longrightarrow> length a = l"
  by (simp add: rect3_def)

lemma rect3_nth: "rect3 l r c a \<Longrightarrow> k < l \<Longrightarrow> rect2 r c (a ! k)"
  by (simp add: rect3_def list_all_length)

lemma rect2_length: "rect2 r c m \<Longrightarrow> length m = r"
  by (simp add: rect2_def)

lemma rect2_nth: "rect2 r c m \<Longrightarrow> i < r \<Longrightarrow> length (m ! i) = c"
  by (simp add: rect2_def list_all_length)

lemma rect4_length: "rect4 n l r c t \<Longrightarrow> length t = n"
  by (simp add: rect4_def)

lemma rect4_nth: "rect4 n l r c t \<Longrightarrow> e < n \<Longrightarrow> rect3 l r c (t ! e)"
  by (simp add: rect4_def list_all_length)

text \<open>
  Rows of two matrices appended pairwise: a column slice beyond the first block reads the
  second matrix, a column slice within the first block reads the first.
\<close>

lemma slice_rows_second:
  assumes "rect2 r c x" "rect2 r c y"
  shows "map (py_slice c (c + w)) (py_slice 0 r' (map2 (@) x y)) = map (py_slice 0 w) (py_slice 0 r' y)"
proof (rule nth_equalityI)
  show "length (map (py_slice c (c + w)) (py_slice 0 r' (map2 (@) x y))) = length (map (py_slice 0 w) (py_slice 0 r' y))"
    using assms by (simp add: py_slice_def rect2_def)
next
  fix i assume "i < length (map (py_slice c (c + w)) (py_slice 0 r' (map2 (@) x y)))"
  then have i: "i < r'" "i < r" using assms by (simp_all add: py_slice_def rect2_def)
  then have "length (x ! i) = c" using assms rect2_nth by blast
  then show "map (py_slice c (c + w)) (py_slice 0 r' (map2 (@) x y)) ! i = map (py_slice 0 w) (py_slice 0 r' y) ! i"
    using i assms by (simp add: py_slice_def rect2_def)
qed

lemma slice_rows_first:
  assumes "rect2 r c x" "rect2 r c y" "w \<le> c"
  shows "map (py_slice 0 w) (py_slice 0 r' (map2 (@) x y)) = map (py_slice 0 w) (py_slice 0 r' x)"
proof (rule nth_equalityI)
  show "length (map (py_slice 0 w) (py_slice 0 r' (map2 (@) x y))) = length (map (py_slice 0 w) (py_slice 0 r' x))"
    using assms by (simp add: py_slice_def rect2_def)
next
  fix i assume "i < length (map (py_slice 0 w) (py_slice 0 r' (map2 (@) x y)))"
  then have i: "i < r'" "i < r" using assms by (simp_all add: py_slice_def rect2_def)
  then have "length (x ! i) = c" using assms rect2_nth by blast
  then show "map (py_slice 0 w) (py_slice 0 r' (map2 (@) x y)) ! i = map (py_slice 0 w) (py_slice 0 r' x) ! i"
    using i assms by (simp add: py_slice_def rect2_def)
qed

lemma jacobian_view_rect:
  assumes "list_all (\<lambda>env. length env = l) jac" "k < l"
  shows "jacobian_view jac (int k) c0 c1 = Inr (map (\<lambda>env. map (py_slice c0 c1) (py_slice 0 6 (env ! k))) jac)"
proof -
  have "index_dim1 jac (int k) = Inr (map (\<lambda>env. env ! k) jac)"
    using index_dim1_rect[OF assms(1), of "int k"] assms(2) by simp
  then show ?thesis by (simp add: jacobian_view_def comp_def)
qed

lemma cat3_env:
  assumes "rect3 l r c a" "rect3 l r c b" "k < l"
  shows "(map2 (map2 (@)) a b @ map2 (map2 (@)) a b) ! (l + k) = map2 (@) (a ! k) (b ! k)"
    and "(map2 (map2 (@)) a b @ map2 (map2 (@)) a b) ! k = map2 (@) (a ! k) (b ! k)"
    and "length (map2 (map2 (@)) a b @ map2 (map2 (@)) a b) = l + l"
  using assms by (simp_all add: rect3_def nth_append)

lemma jacobian_concat_length:
  assumes "rect4 n l r c J1" "rect4 n l r c J2"
  shows "list_all (\<lambda>env. length env = l + l) (concatenate_axis1 (concatenate_axis3 J1 J2) (concatenate_axis3 J1 J2))"
  using assms
  by (auto simp: concatenate_axis1_def concatenate_axis3_def list_all_length rect4_def rect3_def)

lemma jacobian_concat_second:
  assumes "rect4 n l r c J1" "rect4 n l r c J2" "k < l"
  shows "jacobian_view (concatenate_axis1 (concatenate_axis3 J1 J2) (concatenate_axis3 J1 J2))
           (int (l + k)) c (c + w)
         = jacobian_view J2 (int k) 0 w"
proof -
  let ?cat = "concatenate_axis1 (concatenate_axis3 J1 J2) (concatenate_axis3 J1 J2)"
  have len: "length J1 = n" "length J2 = n" using assms by (simp_all add: rect4_def)
  have l2: "list_all (\<lambda>env. length env = l) J2"
    using assms by (simp add: rect4_def rect3_def list_all_length)
  have lhs: "jacobian_view ?cat (int (l + k)) c (c + w)
      = Inr (map (\<lambda>env. map (py_slice c (c + w)) (py_slice 0 6 (env ! (l + k)))) ?cat)"
    using jacobian_view_rect[OF jacobian_concat_length[OF assms(1,2)], of "l + k" c "c + w"] assms(3)
    by simp
  have rhs: "jacobian_view J2 (int k) 0 w
      = Inr (map (\<lambda>env. map (py_slice 0 w) (py_slice 0 6 (env ! k))) J2)"
    using jacobian_view_rect[OF l2, of k 0 w] assms(3) by simp
  have "map (\<lambda>env. map (py_slice c (c + w)) (py_slice 0 6 (env ! (l + k)))) ?cat
      = map (\<lambda>env. map (py_slice 0 w) (py_slice 0 6 (env ! k))) J2"
  proof (rule nth_equalityI)
    show "length (map (\<lambda>env. map (py_slice c (c + w)) (py_slice 0 6 (env ! (l + k)))) ?cat)
        = length (map (\<lambda>env. map (py_slice 0 w) (py_slice 0 6 (env ! k))) J2)"
      using len by (simp add: concatenate_axis1_def concatenate_axis3_def)
  next
    fix e assume "e < length (map (\<lambda>env. map (py_slice c (c + w)) (py_slice 0 6 (env ! (l + k)))) ?cat)"
    then have e: "e < n" using len by (simp add: concatenate_axis1_def concatenate_axis3_def)
    have a: "rect3 l r c (J1 ! e)" and b: "rect3 l r c (J2 ! e)"
      using assms e by (simp_all add: rect4_nth)
    have cat_e: "?cat ! e = map2 (map2 (@)) (J1 ! e) (J2 ! e) @ map2 (map2 (@)) (J1 ! e) (J2 ! e)"
      using e len by (simp add: concatenate_axis1_def concatenate_axis3_def)
    have rows: "rect2 r c (J1 ! e ! k)" "rect2 r c (J2 ! e ! k)"
      using a b assms(3) by (simp_all add: rect3_nth)
    show "map (\<lambda>env. map (py_slice c (c + w)) (py_slice 0 6 (env ! (l + k)))) ?cat ! e
        = map (\<lambda>env. map (py_slice 0 w) (py_slice 0 6 (env ! k))) J2 ! e"
      using e len cat_e cat3_env(1)[OF a b assms(3)] slice_rows_second[OF rows]
      by (simp add: concatenate_axis1_def concatenate_axis3_def)
  qed
  then show ?thesis using lhs rhs by simp
qed

lemma jacobian_concat_first:
  assumes "rect4 n l r c J1" "rect4 n l r c J2" "k < l" "w \<le> c"
  shows "jacobian_view (concatenate_axis1 (concatenate_axis3 J1 J2) (concatenate_axis3 J1 J2))
           (int k) 0 w
         = jacobian_view J1 (int k) 0 w"
proof -
  let ?cat = "concatenate_axis1 (concatenate_axis3 J1 J2) (concatenate_axis3 J1 J2)"
  have len: "length J1 = n" "length J2 = n" using assms by (simp_all add: rect4_def)
  have l1: "list_all (\<lambda>env. length env = l) J1"
    using assms by (simp add: rect4_def rect3_def list_all_length)
  have lhs: "jacobian_view ?cat (int k) 0 w
      = Inr (map (\<lambda>env. map (py_slice 0 w) (py_slice 0 6 (env ! k))) ?cat)"
    using jacobian_view_rect[OF jacobian_concat_length[OF assms(1,2)], of k 0 w] assms(3)
    by simp
  have rhs: "jacobian_view J1 (int k) 0 w
      = Inr (map (\<lambda>env. map (py_slice 0 w) (py_slice 0 6 (env ! k))) J1)"
    using jacobian_view_rect[OF l1, of k 0 w] assms(3) by simp
  have "map (\<lambda>env. map (py_slice 0 w) (py_slice 0 6 (env ! k))) ?cat
      = map (\<lambda>env. map (py_slice 0 w) (py_slice 0 6 (env ! k))) J1"
  proof (rule nth_equalityI)
    show "length (map (\<lambda>env. map (py_slice 0 w) (py_slice 0 6 (env ! k))) ?cat)
        = length (map (\<lambda>env. map (py_slice 0 w) (py_slice 0 6 (env ! k))) J1)"
      using len by (simp add: concatenate_axis1_def concatenate_axis3_def)
  next
    fix e assume "e < length (map (\<lambda>env. map (py_slice 0 w) (py_slice 0 6 (env ! k))) ?cat)"
    then have e: "e < n" using len by (simp add: concatenate_axis1_def concatenate_axis3_def)
    have a: "rect3 l r c (J1 ! e)" and b: "rect3 l r c (J2 ! e)"
      using assms e by (simp_all add: rect4_nth)
    have cat_e: "?cat ! e = map2 (map2 (@)) (J1 ! e) (J2 ! e) @ map2 (map2 (@)) (J1 ! e) (J2 ! e)"
      using e len by (simp add: concatenate_axis1_def concatenate_axis3_def)
    have rows: "rect2 r c (J1 ! e ! k)" "rect2 r c (J2 ! e ! k)"
      using a b assms(3) by (simp_all add: rect3_nth)
    show "map (\<lambda>env. map (py_slice 0 w) (py_slice 0 6 (env ! k))) ?cat ! e
        = map (\<lambda>env. map (py_slice 0 w) (py_slice 0 6 (env ! k))) J1 ! e"
      using e len cat_e cat3_env(2)[OF a b assms(3)] slice_rows_first[OF rows assms(4)]
      by (simp add: concatenate_axis1_def concatenate_axis3_def)
  qed
  then show ?thesis using lhs rhs by simp
qed

lemma mass_matrix_concat_second:
  assumes "rect3 n d c M1" "rect3 n d c M2"
  shows "mass_matrix_view (concatenate_axis1 M1 M2) d (d + w) = mass_matrix_view M2 0 w"
proof -
  have len: "length M1 = n" "length M2 = n" using assms by (simp_all add: rect3_def)
  show ?thesis unfolding mass_matrix_view_def
  proof (rule nth_equalityI)
    show "length (map (\<lambda>m. map (py_slice 0 7) (py_slice d (d + w) m)) (concatenate_axis1 M1 M2))
       = length (map (\<lambda>m. map (py_slice 0 7) (py_slice 0 w m)) M2)"
      using len by (simp add: concatenate_axis1_def)
  next
    fix e assume "e < length (map (\<lambda>m. map (py_slice 0 7) (py_slice d (d + w) m)) (concatenate_axis1 M1 M2))"
    then have e: "e < n" using len by (simp add: concatenate_axis1_def)
    have "length (M1 ! e) = d" using assms e by (simp add: rect3_def rect2_def list_all_length)
    then show "map (\<lambda>m. map (py_slice 0 7) (py_slice d (d + w) m)) (concatenate_axis1 M1 M2) ! e
       = map (\<lambda>m. map (py_slice 0 7) (py_slice 0 w m)) M2 ! e"
      using e len by (simp add: concatenate_axis1_def py_slice_def)
  qed
qed

lemma mass_matrix_concat_first:
  assumes "rect3 n d c M1" "rect3 n d c M2" "w \<le> d"
  shows "mass_matrix_view (concatenate_axis1 M1 M2) 0 w = mass_matrix_view M1 0 w"
proof -
  have len: "length M1 = n" "length M2 = n" using assms by (simp_all add: rect3_def)
  show ?thesis unfolding mass_matrix_view_def
  proof (rule nth_equalityI)
    show "length (map (\<lambda>m. map (py_slice 0 7) (py_slice 0 w m)) (concatenate_axis1 M1 M2))
       = length (map (\<lambda>m. map (py_slice 0 7) (py_slice 0 w m)) M1)"
      using len by (simp add: concatenate_axis1_def)
  next
    fix e assume "e < length (map (\<lambda>m. map (py_slice 0 7) (py_slice 0 w m)) (concatenate_axis1 M1 M2))"
    then have e: "e < n" using len by (simp add: concatenate_axis1_def)
    have "length (M1 ! e) = d" using assms e by (simp add: rect3_def rect2_def list_all_length)
    then show "map (\<lambda>m. map (py_slice 0 7) (py_slice 0 w m)) (concatenate_axis1 M1 M2) ! e
       = map (\<lambda>m. map (py_slice 0 7) (py_slice 0 w m)) M1 ! e"
      using e len assms(3) by (simp add: concatenate_axis1_def py_slice_def)
  qed
qed

lemma acquire_fields:
  assumes "acquire_base_tensors g e = Inr s"
  shows "jacobian s = concatenate_axis1 (concatenate_axis3 (gym_jacobian g) (gym_jacobian_2 g))
                         (concatenate_axis3 (gym_jacobian g) (gym_jacobian_2 g))"
    and "mass_matrix s = concatenate_axis1 (gym_mass_matrix g) (gym_mass_matrix_2 g)"
    and "env s = e"
  using assms by (auto simp: acquire_base_tensors_def Let_def rbind_eq_Inr)

lemma body_view_ok:
  assumes "list_all (\<lambda>bodies. length bodies = nb) (body_state g)" "0 \<le> k" "k < int nb"
  shows "body_view f g k = Inr (map (\<lambda>bodies. f (bodies ! nat k)) (body_state g))"
proof -
  have "list_all (\<lambda>env. length env = nb) (map (map f) (body_state g))"
    using assms(1) by (simp add: list_all_iff)
  from index_dim1_rect[OF this assms(2,3)] show ?thesis
    using assms by (simp add: body_view_def comp_def list_all_iff)
qed

lemma jacobian_arm1:
  assumes "rect4 n 11 6 9 J1" "rect4 n 11 6 9 J2" "arm_ids k k2"
  shows "jacobian_view (concatenate_axis1 (concatenate_axis3 J1 J2) (concatenate_axis3 J1 J2)) (k - 1) 0 7
       = jacobian_view J1 (k - 1) 0 7"
proof -
  have "nat (k - 1) < 11" "k - 1 = int (nat (k - 1))" using assms(3) by (auto simp: arm_ids_def)
  with jacobian_concat_first[OF assms(1,2), where k="nat (k - 1)" and w=7] show ?thesis by simp
qed

lemma jacobian_arm2:
  assumes "rect4 n 11 6 9 J1" "rect4 n 11 6 9 J2" "arm_ids k k2"
  shows "jacobian_view (concatenate_axis1 (concatenate_axis3 J1 J2) (concatenate_axis3 J1 J2)) (k2 - 2) 9 16
       = jacobian_view J2 (k - 1) 0 7"
proof -
  have "nat (k - 1) < 11" "k - 1 = int (nat (k - 1))" "k2 - 2 = int (11 + nat (k - 1))"
    using assms(3) by (auto simp: arm_ids_def)
  with jacobian_concat_second[OF assms(1,2), where k="nat (k - 1)" and w=7] show ?thesis by simp
qed

lemma jacobian_own_ok:
  assumes "rect4 n 11 6 9 J" "arm_ids k k2"
  shows "jacobian_view J (k - 1) 0 7
       = Inr (map (\<lambda>links. map (py_slice 0 7) (py_slice 0 6 (links ! nat (k - 1)))) J)"
proof -
  have l: "list_all (\<lambda>env. length env = 11) J"
    using assms(1) by (simp add: rect4_def rect3_def list_all_length)
  have "nat (k - 1) < 11" "k - 1 = int (nat (k - 1))" using assms(2) by (auto simp: arm_ids_def)
  with jacobian_view_rect[OF l, where k="nat (k - 1)" and ?c0.0=0 and ?c1.0=7] show ?thesis by simp
qed

lemma arm1_body_ok:
  assumes "gym_shapes n nb g" "24 \<le> nb" "arm_ids k k2"
  shows "body_view f g k = Inr (map (\<lambda>bodies. f (bodies ! nat k)) (body_state g))"
    and "body_view f g k2 = Inr (map (\<lambda>bodies. f (bodies ! nat k2)) (body_state g))"
  using assms by (auto simp: gym_shapes_def arm_ids_def intro!: body_view_ok)

lemma acquire_succeeds:
  assumes "gym_shapes n nb g" "ids_ok nb e"
  shows "\<exists>s. acquire_base_tensors g e = Inr s"
proof -
  have J: "rect4 n 11 6 9 (gym_jacobian g)" "rect4 n 11 6 9 (gym_jacobian_2 g)"
    using assms(1) by (simp_all add: gym_shapes_def)
  have ids: "24 \<le> nb" "arm_ids (hand_body_id_env e) (hand_body_id_env_2 e)"
     "arm_ids (left_finger_body_id_env e) (left_finger_body_id_env_2 e)"
     "arm_ids (right_finger_body_id_env e) (right_finger_body_id_env_2 e)"
     "arm_ids (fingertip_centered_body_id_env e) (fingertip_centered_body_id_env_2 e)"
    using assms(2) by (simp_all add: ids_ok_def)
  note b = arm1_body_ok[OF assms(1) ids(1)]
  note j1 = jacobian_arm1[OF J] jacobian_arm2[OF J] jacobian_own_ok[OF J(1)] jacobian_own_ok[OF J(2)]
  show ?thesis
    unfolding acquire_base_tensors_def Let_def
      hand_pos_def hand_pos_2_def left_finger_pos_def left_finger_pos_2_def
      right_finger_pos_def right_finger_pos_2_def fingertip_centered_pos_def
      fingertip_centered_pos_2_def fingertip_centered_linvel_def fingertip_centered_linvel_2_def
      hand_jacobian_def hand_jacobian_2_def left_finger_jacobian_def left_finger_jacobian_2_def
      right_finger_jacobian_def right_finger_jacobian_2_def fingertip_centered_jacobian_def
      fingertip_centered_jacobian_2_def
    by (simp add: b[OF ids(2)] b[OF ids(3)] b[OF ids(4)] b[OF ids(5)]
         j1(1,2)[OF ids(2)] j1(1,2)[OF ids(3)] j1(1,2)[OF ids(4)] j1(1,2)[OF ids(5)]
         j1(3,4)[OF ids(2)] j1(3,4)[OF ids(3)] j1(3,4)[OF ids(4)] j1(3,4)[OF ids(5)])
qed

text \<open>The example tensors have the simulator's shapes.\<close>

lemma example_gym_shapes: "gym_shapes 1 27 (example_gym off)"
  by (simp add: gym_shapes_def example_gym_def example_jacobian_def example_mass_matrix_def
        rect4_def rect3_def rect2_def list_all_iff)

lemma example_ids_ok: "ids_ok 27 example_env"
  by (simp add: ids_ok_def arm_ids_def example_env_def)


text \<open>
  The views of the acquired object read the arm's own tensors; the acquisition succeeds.
\<close>

lemma acquire_views:
  assumes "gym_shapes n nb g" "ids_ok nb e"
  shows "\<exists>s. acquire_base_tensors g e = Inr s \<and>
     hand_jacobian_2 e (jacobian s) = jacobian_view (gym_jacobian_2 g) (hand_body_id_env e - 1) 0 7 \<and>
     hand_jacobian e (jacobian s) = jacobian_view (gym_jacobian g) (hand_body_id_env e - 1) 0 7 \<and>
     left_finger_jacobian_2 e (jacobian s)
       = jacobian_view (gym_jacobian_2 g) (left_finger_body_id_env e - 1) 0 7 \<and>
     left_finger_jacobian e (jacobian s)
       = jacobian_view (gym_jacobian g) (left_finger_body_id_env e - 1) 0 7 \<and>
     right_finger_jacobian_2 e (jacobian s)
       = jacobian_view (gym_jacobian_2 g) (right_finger_body_id_env e - 1) 0 7 \<and>
     right_finger_jacobian e (jacobian s)
       = jacobian_view (gym_jacobian g) (right_finger_body_id_env e - 1) 0 7 \<and>
     fingertip_centered_jacobian_2 e (jacobian s)
       = jacobian_view (gym_jacobian_2 g) (fingertip_centered_body_id_env e - 1) 0 7 \<and>
     fingertip_centered_jacobian e (jacobian s)
       = jacobian_view (gym_jacobian g) (fingertip_centered_body_id_env e - 1) 0 7 \<and>
     arm_mass_matrix_2 (mass_matrix s) = mass_matrix_view (gym_mass_matrix_2 g) 0 7 \<and>
     arm_mass_matrix (mass_matrix s) = mass_matrix_view (gym_mass_matrix g) 0 7"
proof -
  obtain s where s: "acquire_base_tensors g e = Inr s"
    using acquire_succeeds[OF assms] by blast
  have J: "rect4 n 11 6 9 (gym_jacobian g)" "rect4 n 11 6 9 (gym_jacobian_2 g)"
   and M: "rect3 n 9 9 (gym_mass_matrix g)" "rect3 n 9 9 (gym_mass_matrix_2 g)"
    using assms(1) by (simp_all add: gym_shapes_def)
  have ids: "arm_ids (hand_body_id_env e) (hand_body_id_env_2 e)"
     "arm_ids (left_finger_body_id_env e) (left_finger_body_id_env_2 e)"
     "arm_ids (right_finger_body_id_env e) (right_finger_body_id_env_2 e)"
     "arm_ids (fingertip_centered_body_id_env e) (fingertip_centered_body_id_env_2 e)"
    using assms(2) by (simp_all add: ids_ok_def)
  note f = acquire_fields[OF s]
  have m2: "arm_mass_matrix_2 (mass_matrix s) = mass_matrix_view (gym_mass_matrix_2 g) 0 7"
    using mass_matrix_concat_second[OF M, of 7] by (simp add: f arm_mass_matrix_2_def)
  have m1: "arm_mass_matrix (mass_matrix s) = mass_matrix_view (gym_mass_matrix g) 0 7"
    using mass_matrix_concat_first[OF M, of 7] by (simp add: f arm_mass_matrix_def)
  show ?thesis
    using s m1 m2
    by (simp add: f(1) hand_jacobian_def hand_jacobian_2_def left_finger_jacobian_def
          left_finger_jacobian_2_def right_finger_jacobian_def right_finger_jacobian_2_def
          fingertip_centered_jacobian_def fingertip_centered_jacobian_2_def
          jacobian_arm1[OF J ids(1)] jacobian_arm1[OF J ids(2)] jacobian_arm1[OF J ids(3)]
          jacobian_arm1[OF J ids(4)] jacobian_arm2[OF J ids(1)] jacobian_arm2[OF J ids(2)]
          jacobian_arm2[OF J ids(3)] jacobian_arm2[OF J ids(4)])
qed

section \<open>Index arithmetic on the concatenated tensors\<close>

text \<open>
  Claim C10. With \<open>self.jacobian\<close> the link-axis self-concatenation of the column-axis
  concatenation of the two arms' Jacobians, the views of arm 2 (link \<open>body_id_2 - 2\<close>,
  columns \<open>9:16\<close>) are the second arm's own Jacobian at the link \<open>body_id - 1\<close> and the
  columns \<open>0:7\<close> that the views of arm 1 read from the first arm's Jacobian; and
  \<open>arm_mass_matrix_2 = mass_matrix[:, 9:16, 0:7]\<close> is the \<open>7 \<times> 7\<close> arm block of the second
  arm's own mass matrix. The acquisition succeeds on tensors of the simulator's shapes.
\<close>

theorem acquire_second_arm_index_arithmetic:
  assumes "gym_shapes n nb g" "ids_ok nb e"
  shows "\<exists>s. acquire_base_tensors g e = Inr s \<and>
     hand_jacobian_2 e (jacobian s) = jacobian_view (gym_jacobian_2 g) (hand_body_id_env e - 1) 0 7 \<and>
     hand_jacobian e (jacobian s) = jacobian_view (gym_jacobian g) (hand_body_id_env e - 1) 0 7 \<and>
     left_finger_jacobian_2 e (jacobian s)
       = jacobian_view (gym_jacobian_2 g) (left_finger_body_id_env e - 1) 0 7 \<and>
     left_finger_jacobian e (jacobian s)
       = jacobian_view (gym_jacobian g) (left_finger_body_id_env e - 1) 0 7 \<and>
     right_finger_jacobian_2 e (jacobian s)
       = jacobian_view (gym_jacobian_2 g) (right_finger_body_id_env e - 1) 0 7 \<and>
     right_finger_jacobian e (jacobian s)
       = jacobian_view (gym_jacobian g) (right_finger_body_id_env e - 1) 0 7 \<and>
     fingertip_centered_jacobian_2 e (jacobian s)
       = jacobian_view (gym_jacobian_2 g) (fingertip_centered_body_id_env e - 1) 0 7 \<and>
     fingertip_centered_jacobian e (jacobian s)
       = jacobian_view (gym_jacobian g) (fingertip_centered_body_id_env e - 1) 0 7 \<and>
     arm_mass_matrix_2 (mass_matrix s) = mass_matrix_view (gym_mass_matrix_2 g) 0 7 \<and>
     arm_mass_matrix (mass_matrix s) = mass_matrix_view (gym_mass_matrix g) 0 7"
  using acquire_views [OF assms] .

theorem acquire_second_arm_index_arithmetic_witness:
  "gym_shapes 1 27 (example_gym 0) \<and> ids_ok 27 example_env \<and>
   (\<exists>s. acquire_base_tensors (example_gym 0) example_env = Inr s \<and>
     hand_jacobian_2 example_env (jacobian s) = jacobian_view (example_jacobian 5000) 7 0 7 \<and>
     hand_jacobian example_env (jacobian s) = jacobian_view (example_jacobian 0) 7 0 7 \<and>
     left_finger_jacobian_2 example_env (jacobian s) = jacobian_view (example_jacobian 5000) 8 0 7 \<and>
     left_finger_jacobian example_env (jacobian s) = jacobian_view (example_jacobian 0) 8 0 7 \<and>
     right_finger_jacobian_2 example_env (jacobian s) = jacobian_view (example_jacobian 5000) 9 0 7 \<and>
     right_finger_jacobian example_env (jacobian s) = jacobian_view (example_jacobian 0) 9 0 7 \<and>
     fingertip_centered_jacobian_2 example_env (jacobian s)
       = jacobian_view (example_jacobian 5000) 10 0 7 \<and>
     fingertip_centered_jacobian example_env (jacobian s)
       = jacobian_view (example_jacobian 0) 10 0 7 \<and>
     arm_mass_matrix_2 (mass_matrix s) = mass_matrix_view (example_mass_matrix 5000) 0 7 \<and>
     arm_mass_matrix (mass_matrix s) = mass_matrix_view (example_mass_matrix 0) 0 7)"
  using acquire_second_arm_index_arithmetic [OF example_gym_shapes example_ids_ok, of 0]
        example_gym_shapes [of 0] example_ids_ok
  by (simp add: example_gym_def example_env_def)

section \<open>Refreshing the base tensors\<close>

lemma midpoint_frame_Inr:
  "midpoint_frame (Inr lp) (Inr rp) (Inr hq) len (Inr fcl) (Inr fca) (Inr fcp) (Inr lj) (Inr rj)
   = Inr (map (\<lambda>v. vscale v (Fin 0.5)) (map2 vadd lp rp),
          translate_along_local_z (map (\<lambda>v. vscale v (Fin 0.5)) (map2 vadd lp rp)) hq len,
          map2 vadd fcl (map2 cross fca
            (map2 vsub (translate_along_local_z (map (\<lambda>v. vscale v (Fin 0.5)) (map2 vadd lp rp)) hq len)
               fcp)),
          tscale (tadd lj rj) (Fin 0.5))"
  by (simp add: midpoint_frame_def Let_def)

lemma refresh_fields:
  assumes "refresh_base_tensors g' s = Inr s'"
  shows "jacobian s' = jacobian s" "mass_matrix s' = mass_matrix s" "env s' = env s"
  using assms
  by (auto simp: refresh_base_tensors_def rbind_eq_Inr split: prod.splits)

text \<open>
  The result of \<open>refresh_base_tensors\<close> on tensors of the simulator's shapes, written out:
  the body views read the refreshed body state, the Jacobian views read \<open>self.jacobian\<close>.
\<close>

lemma refresh_explicit:
  assumes g': "gym_shapes n nb g'" and ids: "ids_ok nb (env s)"
      and J: "rect4 n 11 6 9 J1" "rect4 n 11 6 9 J2"
      and jac: "jacobian s = concatenate_axis1 (concatenate_axis3 J1 J2) (concatenate_axis3 J1 J2)"
  defines "B \<equiv> body_state g'" and "e \<equiv> env s"
  defines "lp \<equiv> map (\<lambda>b. row_pos (b ! nat (left_finger_body_id_env e))) B"
      and "rp \<equiv> map (\<lambda>b. row_pos (b ! nat (right_finger_body_id_env e))) B"
      and "hq \<equiv> map (\<lambda>b. row_quat (b ! nat (hand_body_id_env e))) B"
      and "fcl \<equiv> map (\<lambda>b. row_linvel (b ! nat (fingertip_centered_body_id_env e))) B"
      and "fca \<equiv> map (\<lambda>b. row_angvel (b ! nat (fingertip_centered_body_id_env e))) B"
      and "fcp \<equiv> map (\<lambda>b. row_pos (b ! nat (fingertip_centered_body_id_env e))) B"
      and "lp2 \<equiv> map (\<lambda>b. row_pos (b ! nat (left_finger_body_id_env_2 e))) B"
      and "rp2 \<equiv> map (\<lambda>b. row_pos (b ! nat (right_finger_body_id_env_2 e))) B"
      and "hq2 \<equiv> map (\<lambda>b. row_quat (b ! nat (hand_body_id_env_2 e))) B"
      and "fcl2 \<equiv> map (\<lambda>b. row_linvel (b ! nat (fingertip_centered_body_id_env_2 e))) B"
      and "fca2 \<equiv> map (\<lambda>b. row_angvel (b ! nat (fingertip_centered_body_id_env_2 e))) B"
      and "fcp2 \<equiv> map (\<lambda>b. row_pos (b ! nat (fingertip_centered_body_id_env_2 e))) B"
  defines "lj \<equiv> map (\<lambda>links. map (py_slice 0 7) (py_slice 0 6 (links ! nat (left_finger_body_id_env e - 1)))) J1"
      and "rj \<equiv> map (\<lambda>links. map (py_slice 0 7) (py_slice 0 6 (links ! nat (right_finger_body_id_env e - 1)))) J1"
      and "lj2 \<equiv> map (\<lambda>links. map (py_slice 0 7) (py_slice 0 6 (links ! nat (left_finger_body_id_env e - 1)))) J2"
      and "rj2 \<equiv> map (\<lambda>links. map (py_slice 0 7) (py_slice 0 6 (links ! nat (right_finger_body_id_env e - 1)))) J2"
  defines "fm \<equiv> map (\<lambda>v. vscale v (Fin 0.5)) (map2 vadd lp rp)"
      and "fm2 \<equiv> map (\<lambda>v. vscale v (Fin 0.5)) (map2 vadd lp2 rp2)"
  defines "mp \<equiv> translate_along_local_z fm hq (franka_finger_length e)"
      and "mp2 \<equiv> translate_along_local_z fm2 hq2 (franka_finger_length e)"
  shows "refresh_base_tensors g' s =
     Inr (s\<lparr> finger_midpoint_pos := Some fm,
             fingertip_midpoint_pos := mp,
             fingertip_midpoint_linvel := map2 vadd fcl (map2 cross fca (map2 vsub mp fcp)),
             fingertip_midpoint_jacobian := tscale (tadd lj rj) (Fin 0.5),
             finger_midpoint_pos_2 := Some fm2,
             fingertip_midpoint_pos_2 := mp2,
             fingertip_midpoint_linvel_2 := map2 vadd fcl2 (map2 cross fca2 (map2 vsub mp2 fcp2)),
             fingertip_midpoint_jacobian_2 := tscale (tadd lj2 rj2) (Fin 0.5) \<rparr>)"
proof -
  have i: "24 \<le> nb" "arm_ids (hand_body_id_env e) (hand_body_id_env_2 e)"
     "arm_ids (left_finger_body_id_env e) (left_finger_body_id_env_2 e)"
     "arm_ids (right_finger_body_id_env e) (right_finger_body_id_env_2 e)"
     "arm_ids (fingertip_centered_body_id_env e) (fingertip_centered_body_id_env_2 e)"
    using ids by (simp_all add: ids_ok_def e_def)
  note b = arm1_body_ok [OF g' i(1)]
  have v: "left_finger_pos g' e = Inr lp" "right_finger_pos g' e = Inr rp" "hand_quat g' e = Inr hq"
    "fingertip_centered_linvel g' e = Inr fcl" "fingertip_centered_angvel g' e = Inr fca"
    "fingertip_centered_pos g' e = Inr fcp"
    "left_finger_pos_2 g' e = Inr lp2" "right_finger_pos_2 g' e = Inr rp2" "hand_quat_2 g' e = Inr hq2"
    "fingertip_centered_linvel_2 g' e = Inr fcl2" "fingertip_centered_angvel_2 g' e = Inr fca2"
    "fingertip_centered_pos_2 g' e = Inr fcp2"
    unfolding left_finger_pos_def right_finger_pos_def hand_quat_def fingertip_centered_linvel_def
      fingertip_centered_angvel_def fingertip_centered_pos_def left_finger_pos_2_def
      right_finger_pos_2_def hand_quat_2_def fingertip_centered_linvel_2_def
      fingertip_centered_angvel_2_def fingertip_centered_pos_2_def
      lp_def rp_def hq_def fcl_def fca_def fcp_def lp2_def rp2_def hq2_def fcl2_def fca2_def
      fcp2_def B_def
    by (simp_all add: b [OF i(2)] b [OF i(3)] b [OF i(4)] b [OF i(5)])
  have j: "left_finger_jacobian e (jacobian s) = Inr lj"
    "right_finger_jacobian e (jacobian s) = Inr rj"
    "left_finger_jacobian_2 e (jacobian s) = Inr lj2"
    "right_finger_jacobian_2 e (jacobian s) = Inr rj2"
    unfolding left_finger_jacobian_def right_finger_jacobian_def left_finger_jacobian_2_def
      right_finger_jacobian_2_def jac lj_def rj_def lj2_def rj2_def
    by (simp_all add: jacobian_arm1 [OF J i(3)] jacobian_arm1 [OF J i(4)]
          jacobian_arm2 [OF J i(3)] jacobian_arm2 [OF J i(4)]
          jacobian_own_ok [OF J(1) i(3)] jacobian_own_ok [OF J(1) i(4)]
          jacobian_own_ok [OF J(2) i(3)] jacobian_own_ok [OF J(2) i(4)])
  show ?thesis
    unfolding refresh_base_tensors_def e_def [symmetric] v j midpoint_frame_Inr
    by (simp add: fm_def fm2_def mp_def mp2_def)
qed

lemma acquire_midpoint_jacobian:
  assumes "acquire_base_tensors g e = Inr s"
  shows "\<exists>lj rj. left_finger_jacobian e (jacobian s) = Inr lj \<and>
                 right_finger_jacobian e (jacobian s) = Inr rj \<and>
                 fingertip_midpoint_jacobian s = tscale (tadd lj rj) (Fin 0.5)"
    and "\<exists>lj rj. left_finger_jacobian_2 e (jacobian s) = Inr lj \<and>
                 right_finger_jacobian_2 e (jacobian s) = Inr rj \<and>
                 fingertip_midpoint_jacobian_2 s = tscale (tadd lj rj) (Fin 0.5)"
  using assms by (auto simp: acquire_base_tensors_def Let_def rbind_eq_Inr)

lemma midpoint_frame_jacobian:
  assumes "midpoint_frame a b c len d e f lj rj = Inr (fm, mp, ml, mj)"
  shows "\<exists>l r. lj = Inr l \<and> rj = Inr r \<and> mj = tscale (tadd l r) (Fin 0.5)"
  using assms by (auto simp: midpoint_frame_def Let_def rbind_eq_Inr)

lemma refresh_midpoint_jacobian:
  assumes "refresh_base_tensors g' s = Inr s'"
  shows "\<exists>lj rj. left_finger_jacobian (env s) (jacobian s) = Inr lj \<and>
                 right_finger_jacobian (env s) (jacobian s) = Inr rj \<and>
                 fingertip_midpoint_jacobian s' = tscale (tadd lj rj) (Fin 0.5)"
    and "\<exists>lj rj. left_finger_jacobian_2 (env s) (jacobian s) = Inr lj \<and>
                 right_finger_jacobian_2 (env s) (jacobian s) = Inr rj \<and>
                 fingertip_midpoint_jacobian_2 s' = tscale (tadd lj rj) (Fin 0.5)"
  using assms
  by (auto simp: refresh_base_tensors_def rbind_eq_Inr split: prod.splits
           dest!: midpoint_frame_jacobian)

lemma refresh_after_acquire:
  assumes "acquire_base_tensors g e = Inr s" "refresh_base_tensors g' s = Inr s'"
  shows "jacobian s' = jacobian s" "mass_matrix s' = mass_matrix s"
        "fingertip_midpoint_jacobian s' = fingertip_midpoint_jacobian s"
        "fingertip_midpoint_jacobian_2 s' = fingertip_midpoint_jacobian_2 s"
  using refresh_fields [OF assms(2)] acquire_fields(3) [OF assms(1)]
        acquire_midpoint_jacobian [OF assms(1)] refresh_midpoint_jacobian [OF assms(2)]
  by auto

lemma example_jacobian_entry:
  assumes "jacobian_view (example_jacobian a) (int k) 0 7 = Inr v" "k < 11"
  shows "v ! 0 ! 0 ! 0 = Fin (real (a + 100 * k))"
proof -
  have l: "list_all (\<lambda>env. length env = 11) (example_jacobian a)"
    by (simp add: example_jacobian_def)
  from jacobian_view_rect [OF l assms(2), of 0 7] assms(1)
  have "v = map (\<lambda>env. map (py_slice 0 7) (py_slice 0 6 (env ! k))) (example_jacobian a)"
    by simp
  then show ?thesis using assms(2) by (simp add: example_jacobian_def py_slice_def)
qed

lemma example_jacobian_views_differ:
  assumes "a \<noteq> b" "k < 11" "jacobian_view (example_jacobian a) (int k) 0 7 = Inr v"
  shows "Inr v \<noteq> jacobian_view (example_jacobian b) (int k) 0 7"
proof
  assume "Inr v = jacobian_view (example_jacobian b) (int k) 0 7"
  then have "jacobian_view (example_jacobian b) (int k) 0 7 = Inr v" by simp
  from example_jacobian_entry [OF this assms(2)] example_jacobian_entry [OF assms(3,2)]
  show False using assms(1) by simp
qed

lemma example_mass_matrix_entry:
  "mass_matrix_view (example_mass_matrix a) 0 7 ! 0 ! 0 ! 0 = Fin (real a)"
  by (simp add: mass_matrix_view_def example_mass_matrix_def py_slice_def)

lemma example_mass_matrix_views_differ:
  assumes "a \<noteq> b"
  shows "mass_matrix_view (example_mass_matrix a) 0 7 \<noteq> mass_matrix_view (example_mass_matrix b) 0 7"
proof
  assume "mass_matrix_view (example_mass_matrix a) 0 7 = mass_matrix_view (example_mass_matrix b) 0 7"
  then have "mass_matrix_view (example_mass_matrix a) 0 7 ! 0 ! 0 ! 0
           = mass_matrix_view (example_mass_matrix b) 0 7 ! 0 ! 0 ! 0" by simp
  then show False using assms by (simp add: example_mass_matrix_entry)
qed

lemma refresh_succeeds:
  assumes "gym_shapes n nb g" "gym_shapes n nb g'" "ids_ok nb e" "acquire_base_tensors g e = Inr s"
  shows "\<exists>s'. refresh_base_tensors g' s = Inr s'"
proof -
  have J: "rect4 n 11 6 9 (gym_jacobian g)" "rect4 n 11 6 9 (gym_jacobian_2 g)"
    using assms(1) by (simp_all add: gym_shapes_def)
  note f = acquire_fields [OF assms(4)]
  have ids: "ids_ok nb (env s)" using assms(3) f(3) by simp
  from refresh_explicit [OF assms(2) ids J f(1)] show ?thesis by blast
qed

text \<open>
  Claim C1 on the code. The tensors are acquired while the simulator holds \<open>example_gym 0\<close>
  and refreshed after it has moved on to \<open>example_gym 1\<close>, every Jacobian and mass-matrix
  entry of which differs. After \<open>refresh_base_tensors\<close> the mass-matrix views and the hand
  and finger Jacobian views of both arms are still those of the tensors held at
  acquisition, not those of the refreshed tensors, and the fingertip-midpoint Jacobians
  are unchanged: \<open>self.jacobian\<close> and \<open>self.mass_matrix\<close> are copies made once by
  \<open>np.concatenate\<close>, which no \<open>refresh_*\<close> call writes.
\<close>

theorem refresh_base_tensors_keeps_acquired_jacobian:
  "\<exists>s s'. acquire_base_tensors (example_gym 0) example_env = Inr s \<and>
      refresh_base_tensors (example_gym 1) s = Inr s' \<and>
      arm_mass_matrix (mass_matrix s') = mass_matrix_view (gym_mass_matrix (example_gym 0)) 0 7 \<and>
      arm_mass_matrix (mass_matrix s') \<noteq> mass_matrix_view (gym_mass_matrix (example_gym 1)) 0 7 \<and>
      arm_mass_matrix_2 (mass_matrix s') = mass_matrix_view (gym_mass_matrix_2 (example_gym 0)) 0 7 \<and>
      arm_mass_matrix_2 (mass_matrix s') \<noteq> mass_matrix_view (gym_mass_matrix_2 (example_gym 1)) 0 7 \<and>
      hand_jacobian example_env (jacobian s') = jacobian_view (gym_jacobian (example_gym 0)) 7 0 7 \<and>
      hand_jacobian example_env (jacobian s') \<noteq> jacobian_view (gym_jacobian (example_gym 1)) 7 0 7 \<and>
      hand_jacobian_2 example_env (jacobian s') = jacobian_view (gym_jacobian_2 (example_gym 0)) 7 0 7 \<and>
      hand_jacobian_2 example_env (jacobian s') \<noteq> jacobian_view (gym_jacobian_2 (example_gym 1)) 7 0 7 \<and>
      left_finger_jacobian example_env (jacobian s') = jacobian_view (gym_jacobian (example_gym 0)) 8 0 7 \<and>
      left_finger_jacobian example_env (jacobian s') \<noteq> jacobian_view (gym_jacobian (example_gym 1)) 8 0 7 \<and>
      left_finger_jacobian_2 example_env (jacobian s') = jacobian_view (gym_jacobian_2 (example_gym 0)) 8 0 7 \<and>
      left_finger_jacobian_2 example_env (jacobian s') \<noteq> jacobian_view (gym_jacobian_2 (example_gym 1)) 8 0 7 \<and>
      right_finger_jacobian example_env (jacobian s') = jacobian_view (gym_jacobian (example_gym 0)) 9 0 7 \<and>
      right_finger_jacobian example_env (jacobian s') \<noteq> jacobian_view (gym_jacobian (example_gym 1)) 9 0 7 \<and>
      right_finger_jacobian_2 example_env (jacobian s') = jacobian_view (gym_jacobian_2 (example_gym 0)) 9 0 7 \<and>
      right_finger_jacobian_2 example_env (jacobian s') \<noteq> jacobian_view (gym_jacobian_2 (example_gym 1)) 9 0 7 \<and>
      fingertip_midpoint_jacobian s' = fingertip_midpoint_jacobian s \<and>
      fingertip_midpoint_jacobian_2 s' = fingertip_midpoint_jacobian_2 s"
proof -
  note sh = example_gym_shapes
  from acquire_views [OF sh [of 0] example_ids_ok] obtain s where
    acq: "acquire_base_tensors (example_gym 0) example_env = Inr s"
    and v: "hand_jacobian_2 example_env (jacobian s) = jacobian_view (gym_jacobian_2 (example_gym 0)) (hand_body_id_env example_env - 1) 0 7"
      "hand_jacobian example_env (jacobian s) = jacobian_view (gym_jacobian (example_gym 0)) (hand_body_id_env example_env - 1) 0 7"
      "left_finger_jacobian_2 example_env (jacobian s) = jacobian_view (gym_jacobian_2 (example_gym 0)) (left_finger_body_id_env example_env - 1) 0 7"
      "left_finger_jacobian example_env (jacobian s) = jacobian_view (gym_jacobian (example_gym 0)) (left_finger_body_id_env example_env - 1) 0 7"
      "right_finger_jacobian_2 example_env (jacobian s) = jacobian_view (gym_jacobian_2 (example_gym 0)) (right_finger_body_id_env example_env - 1) 0 7"
      "right_finger_jacobian example_env (jacobian s) = jacobian_view (gym_jacobian (example_gym 0)) (right_finger_body_id_env example_env - 1) 0 7"
    and m: "arm_mass_matrix_2 (mass_matrix s) = mass_matrix_view (gym_mass_matrix_2 (example_gym 0)) 0 7"
      "arm_mass_matrix (mass_matrix s) = mass_matrix_view (gym_mass_matrix (example_gym 0)) 0 7"
    by blast
  from refresh_succeeds [OF sh [of 0] sh [of 1] example_ids_ok acq] obtain s' where
    ref: "refresh_base_tensors (example_gym 1) s = Inr s'" by blast
  note k = refresh_after_acquire [OF acq ref]
  have ids: "hand_body_id_env example_env - 1 = int 7" "left_finger_body_id_env example_env - 1 = int 8"
    "right_finger_body_id_env example_env - 1 = int 9"
    by (simp_all add: example_env_def)
  have ok: "\<exists>w. jacobian_view (example_jacobian a) (int k) 0 7 = Inr w" if "k < 11" for a k
  proof -
    have l: "list_all (\<lambda>env. length env = 11) (example_jacobian a)"
      by (simp add: example_jacobian_def)
    from jacobian_view_rect [OF l that, of 0 7] show ?thesis by blast
  qed
  have d: "jacobian_view (example_jacobian a) (int k) 0 7 \<noteq> jacobian_view (example_jacobian b) (int k) 0 7"
    if "k < 11" "a \<noteq> b" for a b k
    using ok [OF that(1), of a] example_jacobian_views_differ [OF that(2,1)] by metis
  have g0: "gym_jacobian (example_gym x) = example_jacobian x"
    "gym_jacobian_2 (example_gym x) = example_jacobian (x + 5000)"
    "gym_mass_matrix (example_gym x) = example_mass_matrix x"
    "gym_mass_matrix_2 (example_gym x) = example_mass_matrix (x + 5000)" for x
    by (simp_all add: example_gym_def)
  have c1: "arm_mass_matrix (mass_matrix s') = mass_matrix_view (gym_mass_matrix (example_gym 0)) 0 7"
    "arm_mass_matrix_2 (mass_matrix s') = mass_matrix_view (gym_mass_matrix_2 (example_gym 0)) 0 7"
    using m k(2) by simp_all
  have c2: "arm_mass_matrix (mass_matrix s') \<noteq> mass_matrix_view (gym_mass_matrix (example_gym 1)) 0 7"
    "arm_mass_matrix_2 (mass_matrix s') \<noteq> mass_matrix_view (gym_mass_matrix_2 (example_gym 1)) 0 7"
    unfolding c1 g0 by (rule example_mass_matrix_views_differ, simp)+
  have c3: "hand_jacobian example_env (jacobian s') = jacobian_view (gym_jacobian (example_gym 0)) 7 0 7"
    "hand_jacobian_2 example_env (jacobian s') = jacobian_view (gym_jacobian_2 (example_gym 0)) 7 0 7"
    "left_finger_jacobian example_env (jacobian s') = jacobian_view (gym_jacobian (example_gym 0)) 8 0 7"
    "left_finger_jacobian_2 example_env (jacobian s') = jacobian_view (gym_jacobian_2 (example_gym 0)) 8 0 7"
    "right_finger_jacobian example_env (jacobian s') = jacobian_view (gym_jacobian (example_gym 0)) 9 0 7"
    "right_finger_jacobian_2 example_env (jacobian s') = jacobian_view (gym_jacobian_2 (example_gym 0)) 9 0 7"
    using v ids by (simp_all add: k(1))
  have c4: "hand_jacobian example_env (jacobian s') \<noteq> jacobian_view (gym_jacobian (example_gym 1)) 7 0 7"
    "hand_jacobian_2 example_env (jacobian s') \<noteq> jacobian_view (gym_jacobian_2 (example_gym 1)) 7 0 7"
    "left_finger_jacobian example_env (jacobian s') \<noteq> jacobian_view (gym_jacobian (example_gym 1)) 8 0 7"
    "left_finger_jacobian_2 example_env (jacobian s') \<noteq> jacobian_view (gym_jacobian_2 (example_gym 1)) 8 0 7"
    "right_finger_jacobian example_env (jacobian s') \<noteq> jacobian_view (gym_jacobian (example_gym 1)) 9 0 7"
    "right_finger_jacobian_2 example_env (jacobian s') \<noteq> jacobian_view (gym_jacobian_2 (example_gym 1)) 9 0 7"
    unfolding c3 g0
    using d [of 7 0 1] d [of 7 5000 5001] d [of 8 0 1] d [of 8 5000 5001] d [of 9 0 1] d [of 9 5000 5001]
    by simp_all
  show ?thesis
    using acq ref c1 c2 c3 c4 k(3,4) by blast
qed

section \<open>The fingertip-midpoint frame\<close>

lemma translate_along_local_z_nth:
  assumes "i < length pos" "i < length quat"
  shows "translate_along_local_z pos quat offset ! i
       = vadd (quat_apply (quat ! i) (vscale (Fin 0, Fin 0, Fin 1) offset)) (pos ! i)"
  using assms by (simp add: translate_along_local_z_def)

lemma tscale_tadd_nth:
  assumes "i < length lj" "i < length rj" "r < length (lj ! i)" "r < length (rj ! i)"
          "c < length (lj ! i ! r)" "c < length (rj ! i ! r)"
  shows "tscale (tadd lj rj) k ! i ! r ! c = fmul (fadd (lj ! i ! r ! c) (rj ! i ! r ! c)) k"
  using assms by (simp add: tscale_def tadd_def)

lemma jacobian_own_shape:
  assumes "rect4 n 11 6 9 J" "k < 11" "i < n" "r < 6" "c < 7"
  defines "v \<equiv> map (\<lambda>links. map (py_slice 0 7) (py_slice 0 6 (links ! k))) J"
  shows "i < length v" "r < length (v ! i)" "c < length (v ! i ! r)"
proof -
  have n: "length J = n" and e: "rect3 11 6 9 (J ! i)"
    using assms(1,3) by (simp_all add: rect4_def list_all_length)
  have m: "rect2 6 9 (J ! i ! k)" using e assms(2) by (simp add: rect3_def list_all_length)
  then have l: "length (J ! i ! k) = 6" "length (J ! i ! k ! r) = 9"
    using assms(4) by (simp_all add: rect2_def list_all_length)
  show "i < length v" using n assms(3) by (simp add: v_def)
  show "r < length (v ! i)" using n assms(3,4) l by (simp add: v_def py_slice_def)
  show "c < length (v ! i ! r)" using n assms(3,4,5) l by (simp add: v_def py_slice_def)
qed

lemma midpoint_frame_formulas:
  assumes g': "gym_shapes n nb g'" and ids: "ids_ok nb (env s)"
      and J: "rect4 n 11 6 9 J1" "rect4 n 11 6 9 J2"
      and jac: "jacobian s = concatenate_axis1 (concatenate_axis3 J1 J2) (concatenate_axis3 J1 J2)"
      and i: "i < n"
  shows "\<exists>s' q q2 lj rj lj2 rj2.
     refresh_base_tensors g' s = Inr s' \<and>
     fingertip_midpoint_pos s' ! i =
       midpoint_position (row_pos (body_at g' i (left_finger_body_id_env (env s))))
         (row_pos (body_at g' i (right_finger_body_id_env (env s))))
         (row_quat (body_at g' i (hand_body_id_env (env s)))) (franka_finger_length (env s)) \<and>
     fingertip_midpoint_quat g' (env s) = Inr q \<and>
     q ! i = row_quat (body_at g' i (fingertip_centered_body_id_env (env s))) \<and>
     fingertip_midpoint_linvel s' ! i =
       lever_arm_velocity (row_linvel (body_at g' i (fingertip_centered_body_id_env (env s))))
         (row_angvel (body_at g' i (fingertip_centered_body_id_env (env s))))
         (fingertip_midpoint_pos s' ! i)
         (row_pos (body_at g' i (fingertip_centered_body_id_env (env s)))) \<and>
     left_finger_jacobian (env s) (jacobian s') = Inr lj \<and>
     right_finger_jacobian (env s) (jacobian s') = Inr rj \<and>
     fingertip_midpoint_jacobian s' = tscale (tadd lj rj) (Fin 0.5) \<and>
     (\<forall>r c. r < 6 \<and> c < 7 \<longrightarrow>
        fingertip_midpoint_jacobian s' ! i ! r ! c
          = fmul (fadd (lj ! i ! r ! c) (rj ! i ! r ! c)) (Fin 0.5)) \<and>
     fingertip_midpoint_pos_2 s' ! i =
       midpoint_position (row_pos (body_at g' i (left_finger_body_id_env_2 (env s))))
         (row_pos (body_at g' i (right_finger_body_id_env_2 (env s))))
         (row_quat (body_at g' i (hand_body_id_env_2 (env s)))) (franka_finger_length (env s)) \<and>
     fingertip_midpoint_quat_2 g' (env s) = Inr q2 \<and>
     q2 ! i = row_quat (body_at g' i (fingertip_centered_body_id_env_2 (env s))) \<and>
     fingertip_midpoint_linvel_2 s' ! i =
       lever_arm_velocity (row_linvel (body_at g' i (fingertip_centered_body_id_env_2 (env s))))
         (row_angvel (body_at g' i (fingertip_centered_body_id_env_2 (env s))))
         (fingertip_midpoint_pos_2 s' ! i)
         (row_pos (body_at g' i (fingertip_centered_body_id_env_2 (env s)))) \<and>
     left_finger_jacobian_2 (env s) (jacobian s') = Inr lj2 \<and>
     right_finger_jacobian_2 (env s) (jacobian s') = Inr rj2 \<and>
     fingertip_midpoint_jacobian_2 s' = tscale (tadd lj2 rj2) (Fin 0.5) \<and>
     (\<forall>r c. r < 6 \<and> c < 7 \<longrightarrow>
        fingertip_midpoint_jacobian_2 s' ! i ! r ! c
          = fmul (fadd (lj2 ! i ! r ! c) (rj2 ! i ! r ! c)) (Fin 0.5))"
proof -
  define e where "e = env s"
  define B where "B = body_state g'"
  have lenB: "length B = n" using g' by (simp add: gym_shapes_def B_def)
  have a: "24 \<le> nb" "arm_ids (hand_body_id_env e) (hand_body_id_env_2 e)"
     "arm_ids (left_finger_body_id_env e) (left_finger_body_id_env_2 e)"
     "arm_ids (right_finger_body_id_env e) (right_finger_body_id_env_2 e)"
     "arm_ids (fingertip_centered_body_id_env e) (fingertip_centered_body_id_env_2 e)"
    using ids by (simp_all add: ids_ok_def e_def)
  note b = arm1_body_ok [OF g' a(1)]
  define lj where "lj = map (\<lambda>links. map (py_slice 0 7) (py_slice 0 6 (links ! nat (left_finger_body_id_env e - 1)))) J1"
  define rj where "rj = map (\<lambda>links. map (py_slice 0 7) (py_slice 0 6 (links ! nat (right_finger_body_id_env e - 1)))) J1"
  define lj2 where "lj2 = map (\<lambda>links. map (py_slice 0 7) (py_slice 0 6 (links ! nat (left_finger_body_id_env e - 1)))) J2"
  define rj2 where "rj2 = map (\<lambda>links. map (py_slice 0 7) (py_slice 0 6 (links ! nat (right_finger_body_id_env e - 1)))) J2"
  define q where "q = map (\<lambda>b. row_quat (b ! nat (fingertip_centered_body_id_env e))) B"
  define q2 where "q2 = map (\<lambda>b. row_quat (b ! nat (fingertip_centered_body_id_env_2 e))) B"
  note ex = refresh_explicit [OF g' ids J jac, folded e_def B_def]
  obtain s' where s': "refresh_base_tensors g' s = Inr s'" using ex by blast
  note f = refresh_fields [OF s']
  have k: "nat (left_finger_body_id_env e - 1) < 11" "nat (right_finger_body_id_env e - 1) < 11"
    using a by (auto simp: arm_ids_def)
  have jv: "left_finger_jacobian e (jacobian s') = Inr lj"
    "right_finger_jacobian e (jacobian s') = Inr rj"
    "left_finger_jacobian_2 e (jacobian s') = Inr lj2"
    "right_finger_jacobian_2 e (jacobian s') = Inr rj2"
    unfolding left_finger_jacobian_def right_finger_jacobian_def left_finger_jacobian_2_def
      right_finger_jacobian_2_def f jac lj_def rj_def lj2_def rj2_def
    by (simp_all add: jacobian_arm1 [OF J a(3)] jacobian_arm1 [OF J a(4)]
          jacobian_arm2 [OF J a(3)] jacobian_arm2 [OF J a(4)]
          jacobian_own_ok [OF J(1) a(3)] jacobian_own_ok [OF J(1) a(4)]
          jacobian_own_ok [OF J(2) a(3)] jacobian_own_ok [OF J(2) a(4)])
  have qv: "fingertip_midpoint_quat g' e = Inr q" "fingertip_midpoint_quat_2 g' e = Inr q2"
    unfolding fingertip_midpoint_quat_def fingertip_midpoint_quat_2_def
      fingertip_centered_quat_def fingertip_centered_quat_2_def q_def q2_def B_def
    by (simp_all add: b [OF a(5)])
  have qi: "q ! i = row_quat (body_at g' i (fingertip_centered_body_id_env e))"
    "q2 ! i = row_quat (body_at g' i (fingertip_centered_body_id_env_2 e))"
    using i lenB by (simp_all add: q_def q2_def body_at_def B_def)
  define lp where "lp = map (\<lambda>b. row_pos (b ! nat (left_finger_body_id_env e))) B"
  define rp where "rp = map (\<lambda>b. row_pos (b ! nat (right_finger_body_id_env e))) B"
  define hq where "hq = map (\<lambda>b. row_quat (b ! nat (hand_body_id_env e))) B"
  define lp2 where "lp2 = map (\<lambda>b. row_pos (b ! nat (left_finger_body_id_env_2 e))) B"
  define rp2 where "rp2 = map (\<lambda>b. row_pos (b ! nat (right_finger_body_id_env_2 e))) B"
  define hq2 where "hq2 = map (\<lambda>b. row_quat (b ! nat (hand_body_id_env_2 e))) B"
  define mp where "mp = translate_along_local_z (map (\<lambda>v. vscale v (Fin 0.5)) (map2 vadd lp rp)) hq
      (franka_finger_length e)"
  define mp2 where "mp2 = translate_along_local_z (map (\<lambda>v. vscale v (Fin 0.5)) (map2 vadd lp2 rp2)) hq2
      (franka_finger_length e)"
  have len: "length lp = n" "length rp = n" "length hq = n" "length lp2 = n" "length rp2 = n"
    "length hq2 = n" "length mp = n" "length mp2 = n"
    using lenB
    by (simp_all add: lp_def rp_def hq_def lp2_def rp2_def hq2_def mp_def mp2_def
          translate_along_local_z_def)
  have fld: "fingertip_midpoint_pos s' = mp" "fingertip_midpoint_pos_2 s' = mp2"
    "fingertip_midpoint_linvel s' =
       map2 vadd (map (\<lambda>b. row_linvel (b ! nat (fingertip_centered_body_id_env e))) B)
         (map2 cross (map (\<lambda>b. row_angvel (b ! nat (fingertip_centered_body_id_env e))) B)
            (map2 vsub mp (map (\<lambda>b. row_pos (b ! nat (fingertip_centered_body_id_env e))) B)))"
    "fingertip_midpoint_linvel_2 s' =
       map2 vadd (map (\<lambda>b. row_linvel (b ! nat (fingertip_centered_body_id_env_2 e))) B)
         (map2 cross (map (\<lambda>b. row_angvel (b ! nat (fingertip_centered_body_id_env_2 e))) B)
            (map2 vsub mp2 (map (\<lambda>b. row_pos (b ! nat (fingertip_centered_body_id_env_2 e))) B)))"
    using ex s' unfolding mp_def mp2_def lp_def rp_def hq_def lp2_def rp2_def hq2_def by auto
  have mpi: "mp ! i = midpoint_position (row_pos (body_at g' i (left_finger_body_id_env e)))
         (row_pos (body_at g' i (right_finger_body_id_env e)))
         (row_quat (body_at g' i (hand_body_id_env e))) (franka_finger_length e)"
    "mp2 ! i = midpoint_position (row_pos (body_at g' i (left_finger_body_id_env_2 e)))
         (row_pos (body_at g' i (right_finger_body_id_env_2 e)))
         (row_quat (body_at g' i (hand_body_id_env_2 e))) (franka_finger_length e)"
    unfolding mp_def mp2_def
    using i len lenB
    by (simp_all add: translate_along_local_z_nth midpoint_position_def body_at_def B_def
          lp_def rp_def hq_def lp2_def rp2_def hq2_def)
  have pos: "fingertip_midpoint_pos s' ! i =
       midpoint_position (row_pos (body_at g' i (left_finger_body_id_env e)))
         (row_pos (body_at g' i (right_finger_body_id_env e)))
         (row_quat (body_at g' i (hand_body_id_env e))) (franka_finger_length e)"
    "fingertip_midpoint_pos_2 s' ! i =
       midpoint_position (row_pos (body_at g' i (left_finger_body_id_env_2 e)))
         (row_pos (body_at g' i (right_finger_body_id_env_2 e)))
         (row_quat (body_at g' i (hand_body_id_env_2 e))) (franka_finger_length e)"
    using mpi fld by simp_all
  have vel: "fingertip_midpoint_linvel s' ! i =
       lever_arm_velocity (row_linvel (body_at g' i (fingertip_centered_body_id_env e)))
         (row_angvel (body_at g' i (fingertip_centered_body_id_env e)))
         (fingertip_midpoint_pos s' ! i)
         (row_pos (body_at g' i (fingertip_centered_body_id_env e)))"
    "fingertip_midpoint_linvel_2 s' ! i =
       lever_arm_velocity (row_linvel (body_at g' i (fingertip_centered_body_id_env_2 e)))
         (row_angvel (body_at g' i (fingertip_centered_body_id_env_2 e)))
         (fingertip_midpoint_pos_2 s' ! i)
         (row_pos (body_at g' i (fingertip_centered_body_id_env_2 e)))"
    unfolding fld using i len lenB
    by (simp_all add: lever_arm_velocity_def body_at_def B_def)
  have mj: "fingertip_midpoint_jacobian s' = tscale (tadd lj rj) (Fin 0.5)"
    "fingertip_midpoint_jacobian_2 s' = tscale (tadd lj2 rj2) (Fin 0.5)"
    unfolding lj_def rj_def lj2_def rj2_def using ex s' by auto
  have ent: "tscale (tadd lj rj) (Fin 0.5) ! i ! r ! c = fmul (fadd (lj ! i ! r ! c) (rj ! i ! r ! c)) (Fin 0.5)"
    "tscale (tadd lj2 rj2) (Fin 0.5) ! i ! r ! c = fmul (fadd (lj2 ! i ! r ! c) (rj2 ! i ! r ! c)) (Fin 0.5)"
    if "r < 6" "c < 7" for r c
    unfolding lj_def rj_def lj2_def rj2_def
    by (rule tscale_tadd_nth;
        rule jacobian_own_shape [OF J(1) k(1) i that] jacobian_own_shape [OF J(1) k(2) i that]
             jacobian_own_shape [OF J(2) k(1) i that] jacobian_own_shape [OF J(2) k(2) i that])+
  show ?thesis
    unfolding e_def [symmetric]
    apply (rule exI [of _ s'], rule exI [of _ q], rule exI [of _ q2], rule exI [of _ lj],
           rule exI [of _ rj], rule exI [of _ lj2], rule exI [of _ rj2])
    using s' pos qv qi vel jv mj ent unfolding e_def [symmetric] by simp
qed


lemma example_body_at:
  "k < 27 \<Longrightarrow> body_at (example_gym off) 0 (int k) = example_body k"
  by (simp add: body_at_def example_gym_def)


lemma example_gym_split_shapes: "gym_shapes 1 27 example_gym_split"
  using example_gym_shapes [of 0]
  by (simp add: gym_shapes_def example_gym_split_def example_gym_def)

lemma example_gym_split_rows:
  "body_state example_gym_split = [bodies] \<Longrightarrow>
     bodies ! 8 = example_body 8 \<and> bodies ! 9 = example_body 9 \<and> bodies ! 10 = example_body 10 \<and>
     bodies ! 11 = \<lparr> row_pos = (Fin 11, Fin 0, Fin 1), row_quat = (Fin 1, Fin 0, Fin 0, Fin 0),
                       row_linvel = (Fin 0, Fin 0, Fin 0), row_angvel = (Fin 0, Fin 0, Fin 0) \<rparr>"
  by (auto simp: example_gym_split_def)


text \<open>
  On numbers the two velocity formulas agree when the fingertip-centered body moves
  rigidly with the hand, that is, when its velocity is itself \<open>v_hand + w \<times> (p_c - p_hand)\<close>
  and it turns with the hand's angular velocity \<open>w\<close>.
\<close>

lemma lever_arm_velocity_rigid:
  "lever_arm_velocity
     (lever_arm_velocity (Fin v1, Fin v2, Fin v3) (Fin w1, Fin w2, Fin w3)
        (Fin c1, Fin c2, Fin c3) (Fin h1, Fin h2, Fin h3))
     (Fin w1, Fin w2, Fin w3) (Fin m1, Fin m2, Fin m3) (Fin c1, Fin c2, Fin c3)
   = lever_arm_velocity (Fin v1, Fin v2, Fin v3) (Fin w1, Fin w2, Fin w3)
       (Fin m1, Fin m2, Fin m3) (Fin h1, Fin h2, Fin h3)"
  by (simp add: lever_arm_velocity_def algebra_simps)

section \<open>Translation of the scene\<close>

lemma rbind_map_sum: "rbind (map_sum id h r) f = rbind r (\<lambda>x. f (h x))"
  by (cases r) simp_all

lemma map_sum_rbind: "map_sum id k (rbind r f) = rbind r (\<lambda>x. map_sum id k (f x))"
  by (cases r) simp_all

lemma py_index_map: "py_index (map h xs) k = map_sum id h (py_index xs k)"
  by (auto simp: py_index_def)

lemma collect_map_sum:
  "collect (map (\<lambda>x. map_sum id h (f x)) xs) = map_sum id (map h) (collect (map f xs))"
proof (induction xs)
  case Nil
  then show ?case by simp
next
  case (Cons x xs)
  then show ?case by (cases "f x"; cases "collect (map f xs)") simp_all
qed

lemma index_dim1_map: "index_dim1 (map (map h) t) k = map_sum id (map h) (index_dim1 t k)"
  by (simp add: index_dim1_def comp_def py_index_map collect_map_sum)

lemma body_view_translate:
  "body_view row_pos (translate_bodies c g) k
     = map_sum id (map (\<lambda>p. vadd p c)) (body_view row_pos g k)"
  "body_view row_quat (translate_bodies c g) k = body_view row_quat g k"
  "body_view row_linvel (translate_bodies c g) k = body_view row_linvel g k"
  "body_view row_angvel (translate_bodies c g) k = body_view row_angvel g k"
proof -
  have "body_view row_pos (translate_bodies c g) k
      = index_dim1 (map (map (\<lambda>p. vadd p c)) (map (map row_pos) (body_state g))) k"
    by (simp add: body_view_def translate_bodies_def comp_def)
  also have "\<dots> = map_sum id (map (\<lambda>p. vadd p c)) (index_dim1 (map (map row_pos) (body_state g)) k)"
    by (rule index_dim1_map)
  finally show "body_view row_pos (translate_bodies c g) k
     = map_sum id (map (\<lambda>p. vadd p c)) (body_view row_pos g k)"
    by (simp only: body_view_def)
qed (simp_all add: body_view_def translate_bodies_def comp_def)

text \<open>
  Arithmetic on entries: a translation by a number commutes with the midpoint and with
  the offset, and cancels in a difference.
\<close>

lemma fl_midpoint_shift:
  "fmul (fadd (fadd a (Fin c)) (fadd b (Fin c))) (Fin (1 / 2)) = fadd (fmul (fadd a b) (Fin (1 / 2))) (Fin c)"
  by (cases a; cases b) (simp_all add: field_simps)

lemma fl_add_shift: "fadd x (fadd p (Fin c)) = fadd (fadd x p) (Fin c)"
  by (cases x; cases p) simp_all

lemma fl_sub_shift: "fsub (fadd a (Fin c)) (fadd b (Fin c)) = fsub a b"
  by (cases a; cases b) simp_all

lemma vec_midpoint_shift:
  "vscale (vadd (vadd a (Fin cx, Fin cy, Fin cz)) (vadd b (Fin cx, Fin cy, Fin cz))) (Fin (1 / 2))
   = vadd (vscale (vadd a b) (Fin (1 / 2))) (Fin cx, Fin cy, Fin cz)"
  by (cases a rule: prod_cases3; cases b rule: prod_cases3) (simp add: fl_midpoint_shift)

lemma vec_add_shift:
  "vadd x (vadd p (Fin cx, Fin cy, Fin cz)) = vadd (vadd x p) (Fin cx, Fin cy, Fin cz)"
  by (cases x rule: prod_cases3; cases p rule: prod_cases3) (simp add: fl_add_shift)

lemma vec_sub_shift:
  "vsub (vadd a (Fin cx, Fin cy, Fin cz)) (vadd b (Fin cx, Fin cy, Fin cz)) = vsub a b"
  by (cases a rule: prod_cases3; cases b rule: prod_cases3) (simp add: fl_sub_shift)

lemma midpoint_frame_translate:
  defines "T \<equiv> (\<lambda>cx cy cz p. vadd p (Fin cx, Fin cy, Fin cz))"
  shows "midpoint_frame (map_sum id (map (T cx cy cz)) L) (map_sum id (map (T cx cy cz)) R) HQ len
           FCL FCA (map_sum id (map (T cx cy cz)) FCP) LJ RJ
       = map_sum id (\<lambda>(fm, mp, ml, mj). (map (T cx cy cz) fm, map (T cx cy cz) mp, ml, mj))
           (midpoint_frame L R HQ len FCL FCA FCP LJ RJ)"
proof -
  have 1: "map (\<lambda>v. vscale v (Fin 0.5)) (map2 vadd (map (T cx cy cz) lp) (map (T cx cy cz) rp))
         = map (T cx cy cz) (map (\<lambda>v. vscale v (Fin 0.5)) (map2 vadd lp rp))" for lp rp
    by (simp add: zip_map_map vec_midpoint_shift comp_def split_def T_def)
  have 2: "translate_along_local_z (map (T cx cy cz) fm) hq len
         = map (T cx cy cz) (translate_along_local_z fm hq len)" for fm hq
    by (simp add: translate_along_local_z_def zip_map1 vec_add_shift comp_def split_def T_def)
  have 3: "map2 vsub (map (T cx cy cz) mp) (map (T cx cy cz) fcp) = map2 vsub mp fcp" for mp fcp
    by (simp add: zip_map_map vec_sub_shift comp_def split_def T_def)
  show ?thesis
    by (cases L; cases R; cases HQ; cases FCL; cases FCA; cases FCP; cases LJ; cases RJ)
       (simp_all only: midpoint_frame_def Let_def map_sum.simps id_apply rbind_Inr rbind_Inl
          1 2 3 prod.case)
qed

lemma translated_views:
  "left_finger_pos (translate_bodies c g) e = map_sum id (map (\<lambda>p. vadd p c)) (left_finger_pos g e)"
  "right_finger_pos (translate_bodies c g) e = map_sum id (map (\<lambda>p. vadd p c)) (right_finger_pos g e)"
  "fingertip_centered_pos (translate_bodies c g) e
     = map_sum id (map (\<lambda>p. vadd p c)) (fingertip_centered_pos g e)"
  "left_finger_pos_2 (translate_bodies c g) e = map_sum id (map (\<lambda>p. vadd p c)) (left_finger_pos_2 g e)"
  "right_finger_pos_2 (translate_bodies c g) e
     = map_sum id (map (\<lambda>p. vadd p c)) (right_finger_pos_2 g e)"
  "fingertip_centered_pos_2 (translate_bodies c g) e
     = map_sum id (map (\<lambda>p. vadd p c)) (fingertip_centered_pos_2 g e)"
  "hand_quat (translate_bodies c g) e = hand_quat g e"
  "hand_quat_2 (translate_bodies c g) e = hand_quat_2 g e"
  "fingertip_centered_linvel (translate_bodies c g) e = fingertip_centered_linvel g e"
  "fingertip_centered_linvel_2 (translate_bodies c g) e = fingertip_centered_linvel_2 g e"
  "fingertip_centered_angvel (translate_bodies c g) e = fingertip_centered_angvel g e"
  "fingertip_centered_angvel_2 (translate_bodies c g) e = fingertip_centered_angvel_2 g e"
  unfolding left_finger_pos_def right_finger_pos_def fingertip_centered_pos_def
    left_finger_pos_2_def right_finger_pos_2_def fingertip_centered_pos_2_def hand_quat_def
    hand_quat_2_def fingertip_centered_linvel_def fingertip_centered_linvel_2_def
    fingertip_centered_angvel_def fingertip_centered_angvel_2_def
  by (rule body_view_translate)+

lemma refresh_translated:
  assumes "refresh_base_tensors g' s = Inr s'"
  shows "\<exists>s''. refresh_base_tensors (translate_bodies (Fin cx, Fin cy, Fin cz) g') s = Inr s'' \<and>
     fingertip_midpoint_pos s''
       = map (\<lambda>p. vadd p (Fin cx, Fin cy, Fin cz)) (fingertip_midpoint_pos s') \<and>
     fingertip_midpoint_linvel s'' = fingertip_midpoint_linvel s' \<and>
     fingertip_midpoint_jacobian s'' = fingertip_midpoint_jacobian s' \<and>
     fingertip_midpoint_pos_2 s''
       = map (\<lambda>p. vadd p (Fin cx, Fin cy, Fin cz)) (fingertip_midpoint_pos_2 s') \<and>
     fingertip_midpoint_linvel_2 s'' = fingertip_midpoint_linvel_2 s' \<and>
     fingertip_midpoint_jacobian_2 s'' = fingertip_midpoint_jacobian_2 s'"
proof -
  let ?e = "env s"
  let ?m1 = "midpoint_frame (left_finger_pos g' ?e) (right_finger_pos g' ?e) (hand_quat g' ?e)
     (franka_finger_length ?e) (fingertip_centered_linvel g' ?e) (fingertip_centered_angvel g' ?e)
     (fingertip_centered_pos g' ?e) (left_finger_jacobian ?e (jacobian s))
     (right_finger_jacobian ?e (jacobian s))"
  let ?m2 = "midpoint_frame (left_finger_pos_2 g' ?e) (right_finger_pos_2 g' ?e) (hand_quat_2 g' ?e)
     (franka_finger_length ?e) (fingertip_centered_linvel_2 g' ?e)
     (fingertip_centered_angvel_2 g' ?e) (fingertip_centered_pos_2 g' ?e)
     (left_finger_jacobian_2 ?e (jacobian s)) (right_finger_jacobian_2 ?e (jacobian s))"
  from assms obtain fm mp ml mj fm2 mp2 ml2 mj2 where
    m1: "?m1 = Inr (fm, mp, ml, mj)" and m2: "?m2 = Inr (fm2, mp2, ml2, mj2)"
    and s': "s' = s\<lparr> finger_midpoint_pos := Some fm, fingertip_midpoint_pos := mp,
             fingertip_midpoint_linvel := ml, fingertip_midpoint_jacobian := mj,
             finger_midpoint_pos_2 := Some fm2, fingertip_midpoint_pos_2 := mp2,
             fingertip_midpoint_linvel_2 := ml2, fingertip_midpoint_jacobian_2 := mj2 \<rparr>"
    by (auto simp: refresh_base_tensors_def rbind_eq_Inr)
  note t = midpoint_frame_translate [of cx cy cz]
  show ?thesis
    unfolding refresh_base_tensors_def translated_views t m1 m2 s'
    by simp
qed



section \<open>The controller mode selector\<close>

text \<open>
  Claim C2, as amended. For a mode name outside the eight of the mode table,
  \<open>parse_controller_spec\<close> raises nothing: it returns the configuration in which only
  \<open>num_envs\<close>, \<open>jacobian_type\<close> and the two gripper gains are set and every mode-dependent
  field is \<open>None\<close>, and it leaves the simulator's DOF properties as they were.
\<close>

theorem parse_controller_spec_unknown_mode:
  assumes "ctrl_type c \<notin> set mode_names"
  shows "parse_controller_spec n c a props = Inr (initial_cfg n c, props) \<and>
     motor_ctrl_mode (initial_cfg n c) = None \<and> gain_space (initial_cfg n c) = None \<and>
     ik_method (initial_cfg n c) = None \<and> joint_prop_gains (initial_cfg n c) = None \<and>
     joint_deriv_gains (initial_cfg n c) = None \<and> do_motion_ctrl (initial_cfg n c) = None \<and>
     task_prop_gains (initial_cfg n c) = None \<and> task_deriv_gains (initial_cfg n c) = None \<and>
     do_inertial_comp (initial_cfg n c) = None \<and> motion_ctrl_axes (initial_cfg n c) = None \<and>
     do_force_ctrl (initial_cfg n c) = None \<and> force_ctrl_method (initial_cfg n c) = None \<and>
     wrench_prop_gains (initial_cfg n c) = None \<and> force_ctrl_axes (initial_cfg n c) = None"
  using assms
  by (simp add: parse_controller_spec_def mode_fields_def mode_names_def initial_cfg_def
        cfg_ctrl_None_def)

theorem parse_controller_spec_unknown_mode_witness:
  "ctrl_type (example_ctrl ''position'' [] []) \<notin> set mode_names \<and>
   parse_controller_spec 1 (example_ctrl ''position'' [] []) example_actors example_props =
     Inr (cfg_ctrl_None
            \<lparr> num_envs := Some 1,
              jacobian_type := Some ''geometric'',
              gripper_prop_gains := Some [[50, 50]],
              gripper_deriv_gains := Some [[2, 2]] \<rparr>,
          example_props)"
  using parse_controller_spec_unknown_mode [of "example_ctrl ''position'' [] []" 1 example_actors example_props]
  by (simp add: example_ctrl_def mode_names_def repeat_rows_def initial_cfg_def)

text \<open>
  Claim C2 as stated fails: on the mode name \<open>bogus\<close> the function does not fail with
  \<open>ConfigurationError\<close>; it returns a configuration without backend, gain space or
  control flags, and the DOF properties of both arms are untouched.
\<close>

theorem parse_controller_spec_no_error_counterexample:
  "parse_controller_spec 1 (example_ctrl ''bogus'' [] []) example_actors example_props
     = Inr (initial_cfg 1 (example_ctrl ''bogus'' [] []), example_props) \<and>
   parse_controller_spec 1 (example_ctrl ''bogus'' [] []) example_actors example_props
     \<noteq> Inl ConfigurationError \<and>
   motor_ctrl_mode (initial_cfg 1 (example_ctrl ''bogus'' [] [])) = None \<and>
   gain_space (initial_cfg 1 (example_ctrl ''bogus'' [] [])) = None \<and>
   do_motion_ctrl (initial_cfg 1 (example_ctrl ''bogus'' [] [])) = None \<and>
   do_force_ctrl (initial_cfg 1 (example_ctrl ''bogus'' [] [])) = None \<and>
   do_inertial_comp (initial_cfg 1 (example_ctrl ''bogus'' [] [])) = None"
  by (simp add: parse_controller_spec_def mode_fields_def initial_cfg_def cfg_ctrl_None_def
        example_ctrl_def)

text \<open>
  In general the loop of the \<open>gym\<close> branch changes the properties of the listed actors of
  arm 1 only: an actor handle that is not among \<open>franka_handles\<close> keeps its properties.
\<close>

lemma gym_drive_loop_other:
  "(e, h) \<notin> set (map (\<lambda>(e, h, _). (e, h)) l) \<Longrightarrow> gym_drive_loop l props (e, h) = props (e, h)"
  by (induction l props rule: gym_drive_loop.induct) (auto simp: Let_def)

lemma parse_gym_default_second_arm:
  assumes "ctrl_type c = ''gym_default''"
      and "\<And>h. h \<in> set (franka_handles a) \<Longrightarrow> h \<noteq> h2"
  shows "\<exists>cfg props'. parse_controller_spec n c a props = Inr (cfg, props') \<and>
           motor_ctrl_mode cfg = Some ''gym'' \<and> props' (e, h2) = props (e, h2)"
proof -
  have "(e, h2) \<notin> set (map (\<lambda>(e, h, _). (e, h)) (zip (env_ptrs a) (zip (franka_handles a) z)))"
    for z :: "(real list \<times> real list) list"
  proof
    assume "(e, h2) \<in> set (map (\<lambda>(e, h, _). (e, h)) (zip (env_ptrs a) (zip (franka_handles a) z)))"
    then obtain x where "(e, h2, x) \<in> set (zip (env_ptrs a) (zip (franka_handles a) z))"
      by auto
    then have "(h2, x) \<in> set (zip (franka_handles a) z)" by (rule set_zip_rightD)
    then have "h2 \<in> set (franka_handles a)" by (rule set_zip_leftD)
    with assms(2) show False by blast
  qed
  then show ?thesis
    using assms(1)
    by (simp add: parse_controller_spec_def mode_fields_def initial_cfg_def cfg_ctrl_None_def gym_drive_loop_other
          del: set_map)
qed

lemma parse_controller_spec_manual_both_arms:
  "map_sum id (\<lambda>(cfg, props). (motor_ctrl_mode cfg, props (0, 0), props (0, 1)))
     (parse_controller_spec 1 (example_ctrl ''joint_space_id'' [] []) example_actors example_props)
   = Inr (Some ''manual'',
          \<lparr> driveMode = replicate 9 DOF_MODE_EFFORT,
            stiffness = replicate 9 0, damping = replicate 9 0 \<rparr>,
          \<lparr> driveMode = replicate 9 DOF_MODE_EFFORT,
            stiffness = replicate 9 0, damping = replicate 9 0 \<rparr>)"
  by (simp add: parse_controller_spec_def mode_fields_def initial_cfg_def cfg_ctrl_None_def example_ctrl_def
        example_actors_def example_props_def repeat_rows_def)


text \<open>
  Claim C3 at the native-PD backend. With \<open>ctrl_type = gym_default\<close>, one environment and
  the two arms as the actors 0 and 1, \<open>parse_controller_spec\<close> sets the drive mode of the
  first arm's actor to position and pushes the gains into its stiffness and damping; the
  DOF properties of the second arm's actor are what they were (drive mode none). The
  claim holds at the manual backend, where the loop reads and writes both actors.
\<close>

theorem parse_controller_spec_gym_second_arm_untouched:
  "map_sum id (\<lambda>(cfg, props). (motor_ctrl_mode cfg, props (0, 0), props (0, 1)))
     (parse_controller_spec 1 (example_ctrl ''gym_default'' [] []) example_actors example_props)
   = Inr (Some ''gym'',
          \<lparr> driveMode = replicate 9 DOF_MODE_POS,
            stiffness = [40, 40, 40, 40, 40, 40, 40, 500, 500],
            damping = [8, 8, 8, 8, 8, 8, 8, 20, 20] \<rparr>,
          \<lparr> driveMode = replicate 9 DOF_MODE_NONE,
            stiffness = replicate 9 0, damping = replicate 9 0 \<rparr>)"
  by (simp add: parse_controller_spec_def mode_fields_def initial_cfg_def cfg_ctrl_None_def example_ctrl_def
        example_actors_def example_props_def repeat_rows_def)


lemma parse_cases:
  "\<exists>cfg. parse_controller_spec n c a props
     = Inr (cfg, if motor_ctrl_mode cfg = Some ''gym'' then
                   gym_drive_loop (zip (env_ptrs a) (zip (franka_handles a)
                     (zip (map2 (@) (the (joint_prop_gains cfg)) (the (gripper_prop_gains cfg)))
                          (map2 (@) (the (joint_deriv_gains cfg)) (the (gripper_deriv_gains cfg)))))) props
                 else if motor_ctrl_mode cfg = Some ''manual'' then
                   manual_drive_loop (zip (env_ptrs a) (zip (franka_handles a) (franka_handles_2 a))) props
                 else props)
     \<and> cfg = mode_fields n c (initial_cfg n c)"
  by (simp add: parse_controller_spec_def mode_fields_def initial_cfg_def cfg_ctrl_None_def Let_def)

lemma mode_table_cases:
  assumes "(name, row) \<in> set mode_table"
  shows "(name = ''gym_default'' \<and> row = (''gym'', ''joint'', None, None)) \<or>
    (name = ''joint_space_ik'' \<and> row = (''manual'', ''joint'', Some False, None)) \<or>
    (name = ''joint_space_id'' \<and> row = (''manual'', ''joint'', Some True, None)) \<or>
    (name = ''task_space_impedance'' \<and> row = (''manual'', ''task'', Some False, None)) \<or>
    (name = ''operational_space_motion'' \<and> row = (''manual'', ''task'', Some True, None)) \<or>
    (name = ''open_loop_force'' \<and> row = (''manual'', ''task'', None, Some ''open'')) \<or>
    (name = ''closed_loop_force'' \<and> row = (''manual'', ''task'', None, Some ''closed'')) \<or>
    (name = ''hybrid_force_motion'' \<and> row = (''manual'', ''task'', Some True, Some ''closed''))"
  using assms by (simp add: mode_table_def)

lemmas row_simps = agrees_with_row_def mode_fields_def cfg_ctrl_None_def cfg_ctrl_keys_def
  is_None_def relevant_def

lemma row_gym_default:
  "ctrl_type c = ''gym_default'' \<Longrightarrow>
   agrees_with_row (mode_fields n c (initial_cfg n c)) (''gym'', ''joint'', None, None)"
  by (simp add: row_simps initial_cfg_def del: not_None_eq)

lemma row_joint_space_ik:
  "ctrl_type c = ''joint_space_ik'' \<Longrightarrow>
   agrees_with_row (mode_fields n c (initial_cfg n c)) (''manual'', ''joint'', Some False, None)"
  by (simp add: row_simps initial_cfg_def del: not_None_eq)

lemma row_joint_space_id:
  "ctrl_type c = ''joint_space_id'' \<Longrightarrow>
   agrees_with_row (mode_fields n c (initial_cfg n c)) (''manual'', ''joint'', Some True, None)"
  by (simp add: row_simps initial_cfg_def del: not_None_eq)

lemma row_task_space_impedance:
  "ctrl_type c = ''task_space_impedance'' \<Longrightarrow>
   agrees_with_row (mode_fields n c (initial_cfg n c)) (''manual'', ''task'', Some False, None)"
  by (simp add: row_simps initial_cfg_def del: not_None_eq)

lemma row_operational_space_motion:
  "ctrl_type c = ''operational_space_motion'' \<Longrightarrow>
   agrees_with_row (mode_fields n c (initial_cfg n c)) (''manual'', ''task'', Some True, None)"
  by (simp add: row_simps initial_cfg_def del: not_None_eq)

lemma row_open_loop_force:
  "ctrl_type c = ''open_loop_force'' \<Longrightarrow>
   agrees_with_row (mode_fields n c (initial_cfg n c)) (''manual'', ''task'', None, Some ''open'')"
  by (simp add: row_simps initial_cfg_def del: not_None_eq)

lemma row_closed_loop_force:
  "ctrl_type c = ''closed_loop_force'' \<Longrightarrow>
   agrees_with_row (mode_fields n c (initial_cfg n c)) (''manual'', ''task'', None, Some ''closed'')"
  by (simp add: row_simps initial_cfg_def del: not_None_eq)

lemma row_hybrid_force_motion:
  "ctrl_type c = ''hybrid_force_motion'' \<Longrightarrow>
   agrees_with_row (mode_fields n c (initial_cfg n c)) (''manual'', ''task'', Some True, Some ''closed'')"
  by (simp add: row_simps initial_cfg_def del: not_None_eq)

lemma mode_fields_row:
  assumes "(ctrl_type c, row) \<in> set mode_table"
  shows "agrees_with_row (mode_fields n c (initial_cfg n c)) row"
  using mode_table_cases [OF assms]
  by (elim disjE conjE)
     (simp_all only: row_gym_default row_joint_space_ik row_joint_space_id
        row_task_space_impedance row_operational_space_motion row_open_loop_force
        row_closed_loop_force row_hybrid_force_motion)



lemma masks_repeat_rows:
  "list_all (\<lambda>(mrow, frow). axes_never_both_one mrow frow) (zip (repeat_rows n m) (repeat_rows n f))
     \<longleftrightarrow> n = 0 \<or> axes_never_both_one m f"
  by (auto simp: repeat_rows_def zip_replicate list_all_iff)




section \<open>The command dispatcher\<close>

text \<open>
  Neither branch of the desired-Jacobian block touches the configuration or the actor ids.
\<close>

lemma get_desired_jacobian_frame:
  assumes "get_desired_jacobian fc s = Inr s1"
  shows "cfg_ctrl s1 = cfg_ctrl s" "franka_actor_ids_sim s1 = franka_actor_ids_sim s"
        "franka_actor_ids_sim_2 s1 = franka_actor_ids_sim_2 s"
  using assms
  by (auto simp: get_desired_jacobian_def rbind_def split: if_splits sum.splits)


lemma map2_append_nth:
  assumes "rect2 n n1 t1" "rect2 n n2 t2"
  shows "rect2 n (n1 + n2) (map2 (@) t1 t2)"
    and "e < n \<Longrightarrow> i < n1 \<Longrightarrow> map2 (@) t1 t2 ! e ! i = t1 ! e ! i"
    and "e < n \<Longrightarrow> j < n2 \<Longrightarrow> map2 (@) t1 t2 ! e ! (n1 + j) = t2 ! e ! j"
  using assms by (auto simp: rect2_def list_all_length nth_append)

text \<open>
  Claim C7. In manual mode, for per-arm torque tensors with \<open>n\<close> rows of lengths \<open>n1\<close> and
  \<open>n2\<close> (what \<open>compute_dof_torque\<close> and \<open>compute_dof_torque_2\<close> return), \<open>generate_ctrl_signals\<close>
  succeeds; the combined \<open>dof_torque\<close> has rows of length \<open>n1 + n2\<close>, entry \<open>i < n1\<close> of a
  row is arm 1's entry \<open>i\<close> and entry \<open>n1 + j\<close> is arm 2's entry \<open>j\<close>; and the simulator
  receives exactly one more write, the indexed actuation write of the combined tensor with
  the actor ids of arm 1 followed by those of arm 2.
\<close>

theorem generate_ctrl_signals_manual_dispatch:
  assumes "motor_ctrl_mode (cfg_ctrl s) = Some ''manual''"
      and "get_desired_jacobian fc s = Inr s1"
      and "compute_dof_torque fc s1 = Inr t1"
      and "compute_dof_torque_2 fc (s1\<lparr> dof_torque := t1 \<rparr>) = Inr t2"
      and "rect2 n n1 t1" and "rect2 n n2 t2"
  shows "\<exists>s'. generate_ctrl_signals fc s sim =
           Inr (s', sim @ [Set_dof_actuation_force_tensor_indexed (dof_torque s')
                             (franka_actor_ids_sim s @ franka_actor_ids_sim_2 s)
                             (length (franka_actor_ids_sim s) + length (franka_actor_ids_sim_2 s))]) \<and>
         rect2 n (n1 + n2) (dof_torque s') \<and>
         (\<forall>e i. e < n \<and> i < n1 \<longrightarrow> dof_torque s' ! e ! i = t1 ! e ! i) \<and>
         (\<forall>e j. e < n \<and> j < n2 \<longrightarrow> dof_torque s' ! e ! (n1 + j) = t2 ! e ! j)"
proof -
  note fr = get_desired_jacobian_frame [OF assms(2)]
  have len: "length t1 = length t2" using assms(5,6) by (simp add: rect2_def)
  let ?s' = "s1\<lparr> dof_torque := map2 (@) t1 t2, dof_torque_2 := Some t2,
                 franka_actor_ids_sim_concat := Some (franka_actor_ids_sim s @ franka_actor_ids_sim_2 s) \<rparr>"
  have run: "generate_ctrl_signals fc s sim =
           Inr (?s', sim @ [Set_dof_actuation_force_tensor_indexed (map2 (@) t1 t2)
                             (franka_actor_ids_sim s @ franka_actor_ids_sim_2 s)
                             (length (franka_actor_ids_sim s) + length (franka_actor_ids_sim_2 s))])"
    using assms(1,3,4) len
    by (simp add: generate_ctrl_signals_def assms(2) fr set_dof_torque_def set_dof_torque_2_def
          torch_cat_dim1_def wrap_tensor_def Let_def)
  have t: "dof_torque ?s' = map2 (@) t1 t2" by simp
  show ?thesis
    apply (rule exI [of _ ?s'])
    unfolding t
    using run map2_append_nth [OF assms(5,6)] by blast
qed

theorem generate_ctrl_signals_manual_dispatch_witness:
  "motor_ctrl_mode (cfg_ctrl example_ctrl_state) = Some ''manual'' \<and>
   rect2 1 9 [map Fin [1, 2, 3, 4, 5, 6, 7, 8, 9]] \<and>
   rect2 1 9 [map Fin [11, 12, 13, 14, 15, 16, 17, 18, 19]] \<and>
   (\<exists>s'. generate_ctrl_signals example_factory_control example_ctrl_state [] =
           Inr (s', [Set_dof_actuation_force_tensor_indexed (dof_torque s') [0, 4] 2]) \<and>
         rect2 1 18 (dof_torque s') \<and>
         dof_torque s' ! 0 ! 0 = Fin 1 \<and> dof_torque s' ! 0 ! 8 = Fin 9 \<and>
         dof_torque s' ! 0 ! 9 = Fin 11 \<and> dof_torque s' ! 0 ! 17 = Fin 19)"
proof -
  have m: "motor_ctrl_mode (cfg_ctrl example_ctrl_state) = Some ''manual''"
    by (simp add: example_ctrl_state_def mode_fields_def example_ctrl_def)
  have j: "get_desired_jacobian example_factory_control example_ctrl_state =
      Inr (example_ctrl_state\<lparr> fingertip_midpoint_jacobian_tf := Some [],
                                fingertip_midpoint_jacobian_tf_2 := Some [] \<rparr>)"
    by (simp add: get_desired_jacobian_def example_ctrl_state_def mode_fields_def example_ctrl_def
          initial_cfg_def cfg_ctrl_None_def)
  have t1: "compute_dof_torque example_factory_control
              (example_ctrl_state\<lparr> fingertip_midpoint_jacobian_tf := Some [],
                                fingertip_midpoint_jacobian_tf_2 := Some [] \<rparr>)
            = Inr [map Fin [1, 2, 3, 4, 5, 6, 7, 8, 9]]"
    by (simp add: example_factory_control_def)
  have t2: "compute_dof_torque_2 example_factory_control
              (example_ctrl_state\<lparr> fingertip_midpoint_jacobian_tf := Some [],
                                fingertip_midpoint_jacobian_tf_2 := Some [] \<rparr>
                 \<lparr> dof_torque := [map Fin [1, 2, 3, 4, 5, 6, 7, 8, 9]] \<rparr>)
            = Inr [map Fin [11, 12, 13, 14, 15, 16, 17, 18, 19]]"
    by (simp add: example_factory_control_def)
  have r1: "rect2 1 9 [map Fin [1, 2, 3, 4, 5, 6, 7, 8, 9]]"
   and r2: "rect2 1 9 [map Fin [11, 12, 13, 14, 15, 16, 17, 18, 19]]"
    by (simp_all add: rect2_def)
  from generate_ctrl_signals_manual_dispatch [OF m j t1 t2 r1 r2, of "[]"]
  obtain s' where run: "generate_ctrl_signals example_factory_control example_ctrl_state [] =
           Inr (s', [Set_dof_actuation_force_tensor_indexed (dof_torque s') [0, 4] 2])"
    and r: "rect2 1 18 (dof_torque s')"
    and a: "\<forall>e i. e < 1 \<and> i < 9 \<longrightarrow> dof_torque s' ! e ! i = [map Fin [1, 2, 3, 4, 5, 6, 7, 8, 9]] ! e ! i"
    and b: "\<forall>e j. e < 1 \<and> j < 9 \<longrightarrow> dof_torque s' ! e ! (9 + j) = [map Fin [11, 12, 13, 14, 15, 16, 17, 18, 19]] ! e ! j"
    by (auto simp: example_ctrl_state_def)
  from a [rule_format, of 0 0] a [rule_format, of 0 8] b [rule_format, of 0 0] b [rule_format, of 0 8]
  have "dof_torque s' ! 0 ! 0 = Fin 1 \<and> dof_torque s' ! 0 ! 8 = Fin 9 \<and>
         dof_torque s' ! 0 ! 9 = Fin 11 \<and> dof_torque s' ! 0 ! 17 = Fin 19"
    by simp
  with m r1 r2 run r show ?thesis by blast
qed

section \<open>Actions as control targets\<close>

lemma quat_mul_identity:
  "quat_mul (Fin 0, Fin 0, Fin 0, Fin 1) (Fin x, Fin y, Fin z, Fin w) = (Fin x, Fin y, Fin z, Fin w)"
  by (simp add: Let_def algebra_simps)

lemma rot_actions_quat_zero:
  assumes "clamp_rot rl" "0 \<le> clamp_rot_thresh rl" "i < n" "length rot_actions = n"
      and "norm3 (rot_actions ! i) = Fin 0"
  shows "rot_actions_quat rl n rot_actions ! i = (Fin 0, Fin 0, Fin 0, Fin 1)"
  using assms by (simp add: rot_actions_quat_def Let_def)

lemma rot_actions_quat_length:
  "length rot_actions = n \<Longrightarrow> length (rot_actions_quat rl n rot_actions) = n"
  by (simp add: rot_actions_quat_def Let_def)

lemma scaled_actions_nth:
  "i < length actions \<Longrightarrow>
   scaled_actions do_scale scale actions a ! i
     = (if do_scale then matmul_diag (slice3 (actions ! i) a) scale else slice3 (actions ! i) a)"
  by (simp add: scaled_actions_def Let_def)

lemma scaled_actions_length: "length (scaled_actions do_scale scale actions a) = length actions"
  by (simp add: scaled_actions_def Let_def)

lemma generate_ctrl_signals_targets:
  fixes s :: "'x task_scheme"
  assumes "generate_ctrl_signals fc s sim = Inr (s', sim')"
  shows "ctrl_target_fingertip_midpoint_quat s' = ctrl_target_fingertip_midpoint_quat s"
    and "second_ctrl_target_fingertip_midpoint_quat s' = second_ctrl_target_fingertip_midpoint_quat s"
  using assms
  by (auto simp: generate_ctrl_signals_def get_desired_jacobian_def set_dof_pos_target_def
        set_dof_torque_def set_dof_torque_2_def wrap_tensor_def torch_cat_dim1_def Let_def
        rbind_eq_Inr split: if_splits option.splits)

lemma set_ctrl_targets_quat:
  assumes "set_ctrl_targets g n actions gripper do_scale s = Inr s1"
  shows "\<exists>fmq. fingertip_midpoint_quat g (env s) = Inr fmq \<and>
     ctrl_target_fingertip_midpoint_quat s1
       = map2 quat_mul (rot_actions_quat (cfg_task_rl s) n
            (scaled_actions do_scale (rot_action_scale (cfg_task_rl s)) actions 3)) fmq \<and>
     second_ctrl_target_fingertip_midpoint_quat s1
       = map2 quat_mul (rot_actions_quat (cfg_task_rl s) n
            (scaled_actions do_scale (rot_action_scale (cfg_task_rl s)) actions 15))
           (second_fingertip_midpoint_quat s)"
  using assms
  by (auto simp: set_ctrl_targets_def Let_def rbind_eq_Inr)

lemma example_midpoint_quat:
  "fingertip_midpoint_quat (example_gym 0) example_env = Inr [(Fin 0, Fin 0, Fin 0, Fin 1)]"
proof -
  have b: "list_all (\<lambda>bodies. length bodies = 27) (body_state (example_gym 0))"
    using example_gym_shapes [of 0] by (simp add: gym_shapes_def)
  show ?thesis
    unfolding fingertip_midpoint_quat_def fingertip_centered_quat_def
    using body_view_ok [OF b, of 11 row_quat]
    by (simp add: example_env_def example_gym_def example_body_def)
qed

lemma zero_rot_norm:
  "norm3 (if do_scale then matmul_diag (slice3 (zero_actions ! 0) a) (s1, s2, s3)
          else slice3 (zero_actions ! 0) a) = Fin 0" if "a + 2 < 24"
  using that by (simp add: zero_actions_def slice3_def)

lemma example_set_ctrl_targets_clamped:
  "map_sum id ctrl_target_fingertip_midpoint_quat
     (set_ctrl_targets (example_gym 0) 1 zero_actions (Fin 0) True (example_task_state True))
   = Inr [(Fin 0, Fin 0, Fin 0, Fin 1)]"
  by (simp add: set_ctrl_targets_def example_midpoint_quat example_task_state_def Let_def
        rot_actions_quat_def scaled_actions_def zero_actions_def slice3_def)

lemma example_set_ctrl_targets_unclamped:
  "map_sum id ctrl_target_fingertip_midpoint_quat
     (set_ctrl_targets (example_gym 0) 1 zero_actions (Fin 0) True (example_task_state False))
   = Inr [(NaN, NaN, NaN, NaN)]"
  by (simp add: set_ctrl_targets_def example_midpoint_quat example_task_state_def Let_def
        rot_actions_quat_def scaled_actions_def zero_actions_def slice3_def
        quat_from_angle_axis_def normalize_def)


lemma example_apply_actions:
  "\<exists>s' sim'. apply_actions_as_ctrl_targets example_factory_control (example_gym 0) 1 zero_actions
      (Fin 0) do_scale (example_task_state clamp) [] = Inr (s', sim')"
  by (simp add: apply_actions_as_ctrl_targets_def set_ctrl_targets_def example_midpoint_quat
        example_task_state_def Let_def generate_ctrl_signals_def get_desired_jacobian_def
        set_dof_torque_def set_dof_torque_2_def wrap_tensor_def torch_cat_dim1_def
        mode_fields_def initial_cfg_def cfg_ctrl_None_def example_ctrl_def
        example_factory_control_def)



end
